theory Spec2Isabelle
  imports
    Main
    "HOL-Library.Word"
    "HOL-Library.Multiset"
    "HOL-Library.Char_ord"
    "HOL-Library.List_Lexorder"
begin

section \<open>Strings\<close>

text \<open>
  Go strings are byte sequences; they are modelled as \<open>string\<close> (a list of 8-bit
  characters). The functions below are the ones of Go's \<open>strings\<close> package that the
  program calls.

  \<open>strings.ToLower(s)\<close>: when every byte of \<open>s\<close> is ASCII (below 128), the letters \<open>A\<close>
  to \<open>Z\<close> are mapped to \<open>a\<close> to \<open>z\<close> byte by byte and every other byte is kept; on any
  other string Go returns \<open>strings.Map(unicode.ToLower, s)\<close>, which decodes the string as
  UTF-8 and maps every code point by the Unicode tables. That function of the library is
  the parameter \<open>unicodeLower\<close>.
\<close>

definition toLowerChar :: "char \<Rightarrow> char" where
  "toLowerChar c =
     (let n = (of_char c :: nat) in if 65 \<le> n \<and> n \<le> 90 then char_of (n + 32) else c)"

definition isASCII :: "string \<Rightarrow> bool" where
  "isASCII s = list_all (\<lambda>c. (of_char c :: nat) < 128) s"

definition ToLower :: "(string \<Rightarrow> string) \<Rightarrow> string \<Rightarrow> string" where
  "ToLower unicodeLower s = (if isASCII s then map toLowerChar s else unicodeLower s)"

fun HasPrefix :: "string \<Rightarrow> string \<Rightarrow> bool" where
  "HasPrefix s [] = True"
| "HasPrefix [] (p # ps) = False"
| "HasPrefix (c # cs) (p # ps) = (c = p \<and> HasPrefix cs ps)"

text \<open>\<open>strings.Contains(s, substr)\<close>: \<open>substr\<close> occurs at some position of \<open>s\<close>.\<close>

fun Contains :: "string \<Rightarrow> string \<Rightarrow> bool" where
  "Contains [] sub = (sub = [])"
| "Contains (c # cs) sub = (HasPrefix (c # cs) sub \<or> Contains cs sub)"

text \<open>
  \<open>strings.ReplaceAll(s, old, new)\<close>: the non-overlapping occurrences of \<open>old\<close> are
  replaced from left to right. With an empty \<open>old\<close>, Go inserts \<open>new\<close> before every
  character and at the end.
\<close>

function ReplaceAll :: "string \<Rightarrow> string \<Rightarrow> string \<Rightarrow> string" where
  "ReplaceAll s [] new = new @ concat (map (\<lambda>c. c # new) s)"
| "ReplaceAll [] (p # ps) new = []"
| "ReplaceAll (c # cs) (p # ps) new =
     (if HasPrefix (c # cs) (p # ps)
      then new @ ReplaceAll (drop (length ps) cs) (p # ps) new
      else c # ReplaceAll cs (p # ps) new)"
  by pat_completeness auto
termination
  by (relation "measure (\<lambda>(s, old, new). length s)") auto

text \<open>\<open>strings.Join(elems, sep)\<close>.\<close>

fun Join :: "string list \<Rightarrow> string \<Rightarrow> string" where
  "Join [] sep = []"
| "Join [x] sep = x"
| "Join (x # y # ys) sep = x @ sep @ Join (y # ys) sep"

text \<open>The verb \<open>%d\<close> of \<open>fmt\<close> on an unsigned integer: its decimal digits.\<close>

definition digit :: "nat \<Rightarrow> char" where
  "digit d = ''0123456789'' ! d"

fun showNat :: "nat \<Rightarrow> string" where
  "showNat n =
     (if n < 10 then [digit n]
      else showNat (n div 10) @ [digit (n mod 10)])"

declare showNat.simps [simp del]

section \<open>Requests and effects\<close>

text \<open>
  The fields of \<open>http.Request\<close> that the program reads. \<open>URL\<close> is \<open>r.URL.String()\<close>,
  \<open>Header\<close> the header map (each name with its values, in the order in which a \<open>range\<close>
  loop visits the map) and \<open>RBody\<close> the bytes that reading \<open>r.Body\<close> yields.
\<close>

record Request =
  Method :: string
  URL :: string
  Proto :: string
  RequestURI :: string
  RemoteAddr :: string
  Header :: "(string \<times> string list) list"
  RBody :: string

text \<open>
  The program acts on the world by calling the diagnostic logger, the response writer of
  the connection, its collaborators (cache, generation backend, event log), the listeners
  and the process. Each such call is recorded, in order, as one \<open>effect\<close>:
  \<open>Infof\<close>, \<open>Errorf\<close> and \<open>Infoln\<close> are the calls of the diagnostic logger with their
  format and arguments, \<open>HeaderSet\<close> is \<open>w.Header().Set\<close>, \<open>Write\<close> is \<open>w.Write\<close>,
  \<open>HttpError\<close> is \<open>http.Error\<close> with its message and status code, \<open>CheckCache\<close>,
  \<open>GenerateLLMResponse\<close> and \<open>StoreResponse\<close> are the calls of the collaborators,
  \<open>WriteLog\<close> hands an event to the event log, \<open>Shutdown\<close> is \<open>server.Shutdown\<close> on
  the server with the given address and \<open>Exit\<close> is \<open>os.Exit\<close>. The type parameter \<open>'ev\<close>
  is the type of events.
\<close>

datatype 'ev effect =
    Infof string "string list"
  | Errorf string "string list"
  | Infoln string
  | HeaderSet string string
  | Write string
  | HttpError string nat
  | CheckCache Request string
  | GenerateLLMResponse Request
  | StoreResponse string string
  | WriteLog 'ev
  | Shutdown string
  | Exit int

section \<open>The server: \<open>server.go\<close>\<close>

subsection \<open>Header filtering and \<open>sendResponse\<close>\<close>

record HTTPResponse =
  Headers :: "(string \<times> string) list"
  Body :: string

text \<open>
  \<open>Headers\<close> is a Go map: the list holds its entries in the order in which the
  \<open>range\<close> loop visits them.
\<close>

definition ignoreHeaders :: "string \<rightharpoonup> bool" where
  "ignoreHeaders = map_of
     [(''content-length'', True),
      (''content-type'', True),
      (''date'', True),
      (''expires'', True),
      (''last-modified'', True),
      (''http'', True),
      (''http/1.0'', True),
      (''http/1.1'', True),
      (''http/1.2'', True),
      (''http/2.0'', True)]"

text \<open>Reading a key that a Go map does not hold yields the zero value, \<open>false\<close>.\<close>

definition isExcludedHeader :: "(string \<Rightarrow> string) \<Rightarrow> string \<Rightarrow> bool" where
  "isExcludedHeader unicodeLower headerKey =
     (case ignoreHeaders (ToLower unicodeLower headerKey) of Some b \<Rightarrow> b | None \<Rightarrow> False)"

text \<open>
  \<open>sendResponse\<close>: the argument \<open>wr\<close> is the outcome of the writer's \<open>Write\<close> on a body
  (\<open>None\<close> is success, \<open>Some e\<close> the error it returns), and \<open>unicodeLower\<close> is the
  parameter of \<open>ToLower\<close>. A \<open>HeaderSet\<close> effect is the call
  \<open>w.Header().Set(key, value)\<close> with the arguments it is given.
\<close>

fun setHeaders :: "(string \<Rightarrow> string) \<Rightarrow> (string \<times> string) list \<Rightarrow> 'ev effect list" where
  "setHeaders unicodeLower [] = []"
| "setHeaders unicodeLower ((key, val) # hs) =
     (if \<not> isExcludedHeader unicodeLower key
      then HeaderSet key val # setHeaders unicodeLower hs
      else setHeaders unicodeLower hs)"

definition sendResponse ::
  "(string \<Rightarrow> string) \<Rightarrow> (string \<Rightarrow> string option) \<Rightarrow> HTTPResponse \<Rightarrow> 'ev effect list" where
  "sendResponse unicodeLower wr response =
     setHeaders unicodeLower (Headers response) @ [Write (Body response)] @
     (case wr (Body response) of
        Some err \<Rightarrow> [Errorf ''error writing response: %s'' [err]]
      | None \<Rightarrow> [])"

fun isHeaderSet :: "'ev effect \<Rightarrow> bool" where
  "isHeaderSet (HeaderSet k v) = True"
| "isHeaderSet e = False"

fun isBodyWrite :: "'ev effect \<Rightarrow> bool" where
  "isBodyWrite (Write b) = True"
| "isBodyWrite e = False"

definition exclusionSet :: "string set" where
  "exclusionSet =
     {''content-length'', ''content-type'', ''date'', ''expires'', ''last-modified'',
      ''http'', ''http/1.0'', ''http/1.1'', ''http/1.2'', ''http/2.0''}"

text \<open>
  For an example with a name outside ASCII: \<open>unicode.ToLower\<close> takes the capital I with
  a dot above, U+0130 (the bytes C4 B0 in UTF-8), to \<open>i\<close>, so
  \<open>strings.Map(unicode.ToLower, s)\<close> takes the name \<open>EXP\<close>, U+0130, \<open>RES\<close> to
  \<open>expires\<close>. The example agrees with Go on this name; on other strings it is not used.
\<close>

definition exampleUnicodeLower :: "string \<Rightarrow> string" where
  "exampleUnicodeLower s =
     (if s = ''EXP'' @ [CHR 0xC4, CHR 0xB0] @ ''RES'' then ''expires'' else s)"

subsection \<open>\<open>handleRequest\<close>\<close>

text \<open>
  The functions that \<open>handleRequest\<close> calls and \<open>server.go\<close> does not define are
  parameters of the model, collected in the record \<open>App\<close>. The state \<open>'s\<close> is whatever
  the collaborators keep between calls (the cache database, the generation backend).
  An error is \<open>Inl\<close> of its message, a result is \<open>Inr\<close>; for a call that returns only an
  error, \<open>None\<close> is \<open>nil\<close>.
  \<^item> \<open>SplitHostPort\<close> is \<open>net.SplitHostPort\<close>;
  \<^item> \<open>checkCache\<close>, \<open>generateLLMResponse\<close>, \<open>getCacheKey\<close> and \<open>storeResponse\<close> are the
    functions of these names;
  \<^item> \<open>jsonUnmarshal\<close> is \<open>json.Unmarshal\<close> into an \<open>HTTPResponse\<close>;
  \<^item> \<open>clientWrite\<close> is the outcome of \<open>w.Write\<close> on the connection;
  \<^item> \<open>unicodeToLower\<close> is \<open>strings.Map(unicode.ToLower, s)\<close>, the parameter of \<open>ToLower\<close>;
  \<^item> \<open>makeEvent\<close> builds the event that \<open>writeLog\<close> records.
\<close>

record ('s, 'ev) App =
  SplitHostPort :: "string \<Rightarrow> string + (string \<times> string)"
  checkCache :: "'s \<Rightarrow> Request \<Rightarrow> string \<Rightarrow> string + string"
  generateLLMResponse :: "'s \<Rightarrow> Request \<Rightarrow> (string + string) \<times> 's"
  getCacheKey :: "Request \<Rightarrow> string \<Rightarrow> string"
  storeResponse :: "'s \<Rightarrow> string \<Rightarrow> string \<Rightarrow> string option \<times> 's"
  jsonUnmarshal :: "string \<Rightarrow> string + HTTPResponse"
  clientWrite :: "string \<Rightarrow> string option"
  unicodeToLower :: "string \<Rightarrow> string"
  makeEvent :: "Request \<Rightarrow> HTTPResponse \<Rightarrow> string \<Rightarrow> 'ev"

text \<open>The first lines of \<open>handleRequest\<close>: the port of the server address, or \<open>""\<close>.\<close>

definition destPort :: "('s, 'ev) App \<Rightarrow> string \<Rightarrow> string" where
  "destPort app serverAddr =
     (case SplitHostPort app serverAddr of Inl err \<Rightarrow> [] | Inr (host, port) \<Rightarrow> port)"

text \<open>
  \<open>handleRequest\<close> returns the state it leaves and the effects it had. \<open>fetched\<close> is the
  outcome of the first part (cache lookup, and generation and store on a miss): \<open>Inl\<close>
  when the function has returned there, \<open>Inr\<close> with the response bytes otherwise. The
  error returned by \<open>storeResponse\<close> is assigned and never read.
\<close>

definition handleRequest ::
  "('s, 'ev) App \<Rightarrow> 's \<Rightarrow> Request \<Rightarrow> string \<Rightarrow> 's \<times> 'ev effect list" where
  "handleRequest app st r serverAddr =
     (let port = destPort app serverAddr;
          es0 = [Infof ''port %s received a request for %q, from source %s''
                   [port, URL r, RemoteAddr r],
                 CheckCache r port];
          fetched =
            (case checkCache app st r port of
               Inr response \<Rightarrow> Inr (st, response, es0)
             | Inl err \<Rightarrow>
                 (let es1 = es0 @ [Infof ''request cache miss for %q: %s'' [URL r, err],
                                   GenerateLLMResponse r]
                  in case generateLLMResponse app st r of
                       (Inl gerr, st1) \<Rightarrow>
                         Inl (st1, es1 @ [Errorf ''error generating response: %s'' [gerr],
                                          HttpError ''Internal Server Error'' 500])
                     | (Inr responseString, st1) \<Rightarrow>
                         (let key = getCacheKey app r port;
                              (serr, st2) = storeResponse app st1 key responseString
                          in Inr (st2, responseString,
                                  es1 @ [Infof ''generated HTTP response: %s'' [responseString],
                                         StoreResponse key responseString]))))
      in case fetched of
           Inl returned \<Rightarrow> returned
         | Inr (st', response, es) \<Rightarrow>
             (case jsonUnmarshal app response of
                Inl perr \<Rightarrow>
                  (st', es @ [Errorf ''error unmarshalling the json-encoded data: %s'' [perr],
                             HttpError ''Internal Server Error'' 500])
              | Inr respData \<Rightarrow>
                  (st', es @ sendResponse (unicodeToLower app) (clientWrite app) respData @
                        [Infof ''sent the generated response to %s'' [RemoteAddr r],
                         WriteLog (makeEvent app r respData port)])))"

text \<open>Requests handled one after the other, each on the state the previous one left.\<close>

fun handleRequests ::
  "('s, 'ev) App \<Rightarrow> 's \<Rightarrow> (Request \<times> string) list \<Rightarrow> 's \<times> 'ev effect list" where
  "handleRequests app st [] = (st, [])"
| "handleRequests app st ((r, serverAddr) # rest) =
     (let (st1, es1) = handleRequest app st r serverAddr;
          (st2, es2) = handleRequests app st1 rest
      in (st2, es1 @ es2))"

text \<open>The reply to a request whose payload is found in the cache and does not parse.\<close>

definition cachedFailure :: "('s, 'ev) App \<Rightarrow> string \<Rightarrow> Request \<times> string \<Rightarrow> 'ev effect list" where
  "cachedFailure app pe ra =
     [Infof ''port %s received a request for %q, from source %s''
        [destPort app (snd ra), URL (fst ra), RemoteAddr (fst ra)],
      CheckCache (fst ra) (destPort app (snd ra)),
      Errorf ''error unmarshalling the json-encoded data: %s'' [pe],
      HttpError ''Internal Server Error'' 500]"

text \<open>
  What an effect is for the client and the collaborators. \<open>http.Error\<close> replies with the
  status code and writes the message followed by a newline as the body, so it is a write
  to the client; \<open>clientBody\<close> is the body an effect sends.
\<close>

fun isClientWrite :: "'ev effect \<Rightarrow> bool" where
  "isClientWrite (Write b) = True"
| "isClientWrite (HttpError msg code) = True"
| "isClientWrite e = False"

fun clientBody :: "'ev effect \<Rightarrow> string" where
  "clientBody (Write b) = b"
| "clientBody (HttpError msg code) = msg @ [CHR 0x0A]"
| "clientBody e = []"

fun isLLMCall :: "'ev effect \<Rightarrow> bool" where
  "isLLMCall (GenerateLLMResponse r) = True"
| "isLLMCall e = False"

fun isStore :: "'ev effect \<Rightarrow> bool" where
  "isStore (StoreResponse k v) = True"
| "isStore e = False"

fun isWriteLog :: "'ev effect \<Rightarrow> bool" where
  "isWriteLog (WriteLog ev) = True"
| "isWriteLog e = False"

fun isErrorf :: "'ev effect \<Rightarrow> bool" where
  "isErrorf (Errorf f args) = True"
| "isErrorf e = False"

subsection \<open>The listeners: \<open>startServers\<close> and \<open>listenForShutdownSignals\<close>\<close>

text \<open>
  The configuration: a port binding has a 16-bit port, a protocol tag and the name of a
  TLS profile (\<open>""\<close> when none is given); \<open>TLS\<close> maps a profile name to its
  certificate and key paths.
\<close>

record PortConfig =
  Port :: "16 word"
  Protocol :: string
  TLSProfile :: string

record TLSConfig =
  Certificate :: string
  Key :: string

record Config =
  Ports :: "PortConfig list"
  TLS :: "string \<rightharpoonup> TLSConfig"

text \<open>
  An \<open>http.Server\<close> as \<open>setupServer\<close> builds it: its address and its two timeouts, in
  seconds. Its handler passes every request to \<open>handleRequest\<close> with the address.
\<close>

record Server =
  Addr :: string
  ReadTimeout :: nat
  WriteTimeout :: nat

definition setupServer :: "PortConfig \<Rightarrow> Server" where
  "setupServer pc =
     \<lparr>Addr = '':'' @ showNat (unat (Port pc)), ReadTimeout = 10, WriteTimeout = 10\<rparr>"

definition Handler ::
  "('s, 'ev) App \<Rightarrow> Server \<Rightarrow> 's \<Rightarrow> Request \<Rightarrow> 's \<times> 'ev effect list" where
  "Handler app server st r = handleRequest app st r (Addr server)"

text \<open>
  \<open>ListenAndServe\<close> and \<open>ListenAndServeTLS\<close> of \<open>net/http\<close> block while the listener
  serves and always return an error that is not \<open>nil\<close>: at once when the listener cannot
  bind, otherwise when the server is closed. A call that may not have returned is
  \<open>Blocked\<close> (the listener is serving) or has \<open>Returned\<close> a value. The calls on a server
  are parameters: the two that listen give the error message they return, if they have
  returned; \<open>ServerShutdown\<close> gives the error of \<open>server.Shutdown\<close> (\<open>None\<close> is \<open>nil\<close>).
\<close>

datatype 'a call = Blocked | Returned 'a

record Net =
  ListenAndServe :: "Server \<Rightarrow> string call"
  ListenAndServeTLS :: "Server \<Rightarrow> string \<Rightarrow> string \<Rightarrow> string call"
  ServerShutdown :: "Server \<Rightarrow> string option"

text \<open>
  \<open>startTLSServer\<close> and \<open>startHTTPServer\<close> return an \<open>error\<close> (\<open>None\<close> is \<open>nil\<close>) when
  they return. The error of the listening call is never \<open>nil\<close>, so it is returned as it
  is and the final \<open>return nil\<close> is not reached.
\<close>

definition startTLSServer ::
  "Net \<Rightarrow> Config \<Rightarrow> Server \<Rightarrow> PortConfig \<Rightarrow> 'ev effect list \<times> string option call" where
  "startTLSServer net cfg server pc =
     (if TLSProfile pc = []
      then ([], Returned (Some (''TLS profile is not configured for port '' @
                                showNat (unat (Port pc)))))
      else
        (case TLS cfg (TLSProfile pc) of
           None \<Rightarrow>
             ([], Returned (Some (''TLS profile is incomplete for port '' @
                                  showNat (unat (Port pc)))))
         | Some tlsConfig \<Rightarrow>
             if Certificate tlsConfig = [] \<or> Key tlsConfig = []
             then ([], Returned (Some (''TLS profile is incomplete for port '' @
                                       showNat (unat (Port pc)))))
             else ([Infof ''starting HTTPS server on port %d with TLS profile: %s''
                      [showNat (unat (Port pc)), TLSProfile pc]],
                   (case ListenAndServeTLS net server (Certificate tlsConfig) (Key tlsConfig) of
                      Blocked \<Rightarrow> Blocked
                    | Returned err \<Rightarrow> Returned (Some err)))))"

definition startHTTPServer ::
  "Net \<Rightarrow> Server \<Rightarrow> PortConfig \<Rightarrow> 'ev effect list \<times> string option call" where
  "startHTTPServer net server pc =
     ([Infof ''starting HTTP server on port %d'' [showNat (unat (Port pc))]],
      (case ListenAndServe net server of
         Blocked \<Rightarrow> Blocked
       | Returned err \<Rightarrow> Returned (Some err)))"

text \<open>
  The function that \<open>startServers\<close> runs in a goroutine for one port binding: its effects
  and the error it returns, if it has returned. When it returns \<open>nil\<close>, it has put the
  server into \<open>app.Servers\<close> just before (see \<open>runListeners\<close>).
\<close>

definition listener ::
  "Net \<Rightarrow> Config \<Rightarrow> PortConfig \<Rightarrow> 'ev effect list \<times> string option call" where
  "listener net cfg pc =
     (let server = setupServer pc;
          (es, res) =
            (if Protocol pc = ''TLS'' then startTLSServer net cfg server pc
             else if Protocol pc = ''HTTP'' then startHTTPServer net server pc
             else ([], Returned (Some (''unknown protocol for port '' @
                                       showNat (unat (Port pc))))))
      in case res of
           Blocked \<Rightarrow> (es, Blocked)
         | Returned (Some e) \<Rightarrow>
             (es @ [Errorf ''error starting server on port %d: %s''
                      [showNat (unat (Port pc)), e]],
              Returned (Some e))
         | Returned None \<Rightarrow> (es, Returned None))"

text \<open>What has become of the goroutine of a binding.\<close>

definition listenerOutcome :: "Net \<Rightarrow> Config \<Rightarrow> PortConfig \<Rightarrow> string option call" where
  "listenerOutcome net cfg pc =
     snd (listener net cfg pc :: unit effect list \<times> string option call)"

text \<open>\<open>m[k] = v\<close> on a Go map held as a list of entries.\<close>

fun mapSet :: "'k \<Rightarrow> 'v \<Rightarrow> ('k \<times> 'v) list \<Rightarrow> ('k \<times> 'v) list" where
  "mapSet k v [] = [(k, v)]"
| "mapSet k v ((k', v') # m) = (if k' = k then (k, v) # m else (k', v') # mapSet k v m)"

text \<open>
  The state of the group of goroutines: \<open>app.Servers\<close>, the error the group keeps (the
  first one returned that is not \<open>nil\<close>), the ports whose listener is serving, so that
  its goroutine has not returned, and the effects so far.
\<close>

record 'ev Group =
  Servers :: "(16 word \<times> Server) list"
  firstErr :: "string option"
  serving :: "16 word list"
  logged :: "'ev effect list"

text \<open>
  The goroutines of the bindings, in the order in which each one reaches its outcome: it
  returns an error, or returns \<open>nil\<close> after putting its server into \<open>app.Servers\<close>, or
  its listener serves.
\<close>

fun runListeners :: "Net \<Rightarrow> Config \<Rightarrow> PortConfig list \<Rightarrow> 'ev Group \<Rightarrow> 'ev Group" where
  "runListeners net cfg [] g = g"
| "runListeners net cfg (pc # pcs) g =
     (case listener net cfg pc of
        (les, Blocked) \<Rightarrow>
          runListeners net cfg pcs
            (g\<lparr>serving := serving g @ [Port pc], logged := logged g @ les\<rparr>)
      | (les, Returned (Some e)) \<Rightarrow>
          runListeners net cfg pcs
            (g\<lparr>firstErr := (case firstErr g of None \<Rightarrow> Some e | Some f \<Rightarrow> Some f),
               logged := logged g @ les\<rparr>)
      | (les, Returned None) \<Rightarrow>
          runListeners net cfg pcs
            (g\<lparr>Servers := mapSet (Port pc) (setupServer pc) (Servers g),
               logged := logged g @ les\<rparr>))"

text \<open>
  \<open>startServers\<close> starts one goroutine per binding and returns what \<open>g.Wait()\<close> returns.
  \<open>g.Wait()\<close> returns when every goroutine of the group has returned, and then gives the
  error the group keeps; while a listener serves, its goroutine has not returned, and
  neither has \<open>g.Wait()\<close>. \<open>sched\<close> gives the order in which the goroutines reach their
  outcome, a rearrangement of the bindings. The result is the state of the group and what
  \<open>startServers\<close> returns: \<open>Blocked\<close> while a listener serves.
\<close>

definition startServers ::
  "Net \<Rightarrow> Config \<Rightarrow> (PortConfig list \<Rightarrow> PortConfig list) \<Rightarrow> 'ev Group \<times> string option call"
  where
  "startServers net cfg sched =
     (let g = runListeners net cfg (sched (Ports cfg))
                \<lparr>Servers = [], firstErr = None, serving = [], logged = []\<rparr>
      in (g, if serving g = [] then Returned (firstErr g) else Blocked))"

text \<open>
  \<open>listenForShutdownSignals\<close>: what the goroutine does once the signal has arrived, on
  the \<open>app.Servers\<close> of that moment.
\<close>

definition listenForShutdownSignals ::
  "Net \<Rightarrow> (16 word \<times> Server) list \<Rightarrow> 'ev effect list" where
  "listenForShutdownSignals net servers =
     [Infof ''received shutdown signal. shutting down servers...'' []] @
     concat (map (\<lambda>(port, server).
                    Shutdown (Addr server) #
                    (case ServerShutdown net server of
                       Some err \<Rightarrow> [Errorf ''error shutting down server: %s'' [err]]
                     | None \<Rightarrow> []))
                 servers) @
     [Infoln ''all servers shut down gracefully.'', Exit 0]"

text \<open>
  Examples: the bindings of the shipped configuration, and the same bindings with no TLS
  profile; a network on which every listener binds and serves, one on which port 8080
  is in use and the other listeners serve, and one on which every listener has been
  closed.
\<close>

definition exampleConfig :: Config where
  "exampleConfig =
     \<lparr>Ports =
        [\<lparr>Port = 80, Protocol = ''HTTP'', TLSProfile = []\<rparr>,
         \<lparr>Port = 8080, Protocol = ''HTTP'', TLSProfile = []\<rparr>,
         \<lparr>Port = 443, Protocol = ''TLS'', TLSProfile = ''tls_profile1''\<rparr>,
         \<lparr>Port = 8443, Protocol = ''TLS'', TLSProfile = ''tls_profile1''\<rparr>],
      TLS = map_of [(''tls_profile1'',
                     \<lparr>Certificate = ''config/cert/cert.pem'', Key = ''config/cert/key.pem''\<rparr>)]\<rparr>"

definition noProfileConfig :: Config where
  "noProfileConfig = exampleConfig\<lparr>TLS := Map.empty\<rparr>"

definition servingNet :: Net where
  "servingNet =
     \<lparr>ListenAndServe = (\<lambda>server. Blocked),
      ListenAndServeTLS = (\<lambda>server cert key. Blocked),
      ServerShutdown = (\<lambda>server. None)\<rparr>"

definition busyNet :: Net where
  "busyNet =
     \<lparr>ListenAndServe =
        (\<lambda>server. if Addr server = '':8080''
                   then Returned ''listen tcp :8080: bind: address already in use''
                   else Blocked),
      ListenAndServeTLS = (\<lambda>server cert key. Blocked),
      ServerShutdown = (\<lambda>server. None)\<rparr>"

definition closedNet :: Net where
  "closedNet =
     \<lparr>ListenAndServe = (\<lambda>server. Returned ''http: Server closed''),
      ListenAndServeTLS = (\<lambda>server cert key. Returned ''http: Server closed''),
      ServerShutdown = (\<lambda>server. None)\<rparr>"

subsection \<open>A response cache for examples\<close>

text \<open>
  Modelled from the spec: the Response Cache and the other collaborators of
  \<open>handleRequest\<close> (\<open>checkCache\<close>, \<open>storeResponse\<close>, \<open>getCacheKey\<close>,
  \<open>generateLLMResponse\<close>, \<open>makeEvent\<close>), which the sources do not hold. The key of a
  request is made of the inputs of the fingerprint (method, path and query, sorted header
  names joined by commas, body, destination port), written one after the other in place
  of their hash. The cache maps a key to the stored bytes, the last write wins and
  nothing expires; a lookup that finds nothing is a miss. The arguments \<open>llm\<close>,
  \<open>storeErr\<close> and \<open>parse\<close> fix what the generation backend answers, whether the store
  fails, and which payloads parse. The event is the triple it is built from. No header
  of the example response has a byte outside ASCII, so what \<open>unicodeToLower\<close> does is
  not used there.
\<close>

definition exampleKey :: "Request \<Rightarrow> string \<Rightarrow> string" where
  "exampleKey r port =
     Join [Method r, URL r, Join (sort (map fst (Header r))) '','', RBody r, port] ''|''"

definition exampleApp ::
  "(Request \<Rightarrow> string + string) \<Rightarrow> string option \<Rightarrow> (string \<Rightarrow> string + HTTPResponse) \<Rightarrow>
   ((string \<times> string) list, Request \<times> HTTPResponse \<times> string) App" where
  "exampleApp llm storeErr parse =
     \<lparr>SplitHostPort =
        (\<lambda>addr. case addr of
                  c # port \<Rightarrow> if c = CHR '':'' then Inr ([], port)
                              else Inl ''missing port in address''
                | [] \<Rightarrow> Inl ''missing port in address''),
      checkCache =
        (\<lambda>db r port. case map_of db (exampleKey r port) of
                        None \<Rightarrow> Inl ''not found in cache''
                      | Some v \<Rightarrow> Inr v),
      generateLLMResponse = (\<lambda>db r. (llm r, db)),
      getCacheKey = exampleKey,
      storeResponse =
        (\<lambda>db k v. case storeErr of Some e \<Rightarrow> (Some e, db) | None \<Rightarrow> (None, (k, v) # db)),
      jsonUnmarshal = parse,
      clientWrite = (\<lambda>b. None),
      unicodeToLower = (\<lambda>s. s),
      makeEvent = (\<lambda>r resp port. (r, resp, port))\<rparr>"

definition exampleRequest :: Request where
  "exampleRequest =
     \<lparr>Method = ''GET'', URL = ''/etc/passwd'', Proto = ''HTTP/1.1'',
      RequestURI = ''/etc/passwd'', RemoteAddr = ''198.51.100.7:40000'',
      Header = [(''User-Agent'', [''curl/8.0'']), (''Accept'', [''*/*''])], RBody = []\<rparr>"

definition exampleResponse :: HTTPResponse where
  "exampleResponse =
     \<lparr>Headers = [(''Content-Type'', ''text/plain''), (''Server'', ''Apache/2.4.38'')],
      Body = ''root:x:0:0:''\<rparr>"

text \<open>
  Three generation backends: one that fails, one that answers the payload \<open>ok\<close> and one
  that answers \<open>junk\<close>; and a parser that accepts \<open>ok\<close> and rejects every other payload.
\<close>

definition llmTimeout :: "Request \<Rightarrow> string + string" where
  "llmTimeout r = Inl ''timeout''"

definition llmOk :: "Request \<Rightarrow> string + string" where
  "llmOk r = Inr ''ok''"

definition llmJunk :: "Request \<Rightarrow> string + string" where
  "llmJunk r = Inr ''junk''"

definition exampleParse :: "string \<Rightarrow> string + HTTPResponse" where
  "exampleParse s = (if s = ''ok'' then Inr exampleResponse else Inl ''invalid character'')"

section \<open>The event logger\<close>

subsection \<open>Error classification: \<open>errorFields\<close>\<close>

definition errorInvalidJSONResponse :: string where
  "errorInvalidJSONResponse = ''invalidJSONResponse''"

definition errorEmptyLLMResponse :: string where
  "errorEmptyLLMResponse = ''emptyLLMResponse''"

definition errorContentGeneration :: string where
  "errorContentGeneration = ''contentGenerationError''"

text \<open>
  \<open>errorFields(err, resp)\<close>: the argument \<open>errMsg\<close> is \<open>err.Error()\<close>. The result is the
  three-entry map of fields.
\<close>

definition errorFields :: "string \<Rightarrow> string \<Rightarrow> (string \<rightharpoonup> string)" where
  "errorFields errMsg resp =
     (let (errorType, msg) =
        (if Contains errMsg errorInvalidJSONResponse
         then (errorInvalidJSONResponse,
               ReplaceAll errMsg (errorInvalidJSONResponse @ '': '') [])
         else if Contains errMsg errorEmptyLLMResponse
         then (errorEmptyLLMResponse,
               ReplaceAll errMsg (errorEmptyLLMResponse @ '': '') [])
         else (errorContentGeneration,
               ReplaceAll errMsg (errorContentGeneration @ '': '') []))
      in [''type'' \<mapsto> errorType, ''msg'' \<mapsto> msg, ''invalidResponse'' \<mapsto> resp])"

subsection \<open>The logger and its fields\<close>

text \<open>
  A field value is a string or the temperature of the model configuration (a
  floating-point number in the program; its type \<open>'t\<close> is left open). The fields of
  \<open>llm.Config\<close> that the logger reads are its provider, model and temperature.
\<close>

datatype 't fieldValue = Str string | Num 't

record 't llm_Config =
  Provider :: string
  Model :: string
  Temperature :: 't

record EnrichInfo =
  KnownScanner :: string
  Host :: string

text \<open>
  The event logger is a \<open>logrus\<close> logger with a \<open>JSONFormatter\<close>, which writes every
  entry as one JSON object on a line of its own; \<open>TimestampFormat\<close> is the layout of the
  time field and \<open>FieldMap\<close> renames the default keys. \<open>Out\<close> is the file it writes to,
  as \<open>os.OpenFile\<close> was asked to open it.
\<close>

record JSONFormatter =
  TimestampFormat :: string
  FieldMap :: "(string \<times> string) list"

record OpenedFile =
  Name :: string
  Flag :: "string list"
  Perm :: nat

record EventLogger =
  Formatter :: JSONFormatter
  Out :: OpenedFile

definition RFC3339 :: string where
  "RFC3339 = ''2006-01-02T15:04:05Z07:00''"

definition FieldKeyTime :: string where
  "FieldKeyTime = ''time''"

text \<open>
  The \<open>Logger\<close> struct. \<open>EnrichCache\<close> and \<open>Sessionizer\<close> stand for the \<open>Process\<close>
  methods of these two fields: the first gives an error or the enrichment information,
  if any, of a source address; the second gives the session identifier of a source
  address at the time of the call, and the error it returns.
\<close>

record 't Logger =
  EnrichCache :: "string \<Rightarrow> string + EnrichInfo option"
  Sessionizer :: "string \<Rightarrow> string \<times> string option"
  EventLogger :: EventLogger
  LLMConfig :: "'t llm_Config"

text \<open>
  The library calls of the logger: \<open>net.SplitHostPort\<close>, \<open>os.Hostname\<close>,
  \<open>uuid.NewString\<close>, the hexadecimal SHA-256 digest of a byte string
  (\<open>hex.EncodeToString\<close> of \<open>sha256.Sum256\<close>) and the error of \<open>os.OpenFile\<close>.
\<close>

record Lib =
  netSplitHostPort :: "string \<Rightarrow> string + (string \<times> string)"
  osHostname :: "string + string"
  uuidNewString :: string
  sha256Hex :: "string \<Rightarrow> string"
  osOpenFile :: "string \<Rightarrow> string option"

definition New ::
  "Lib \<Rightarrow> string \<Rightarrow> 't llm_Config \<Rightarrow> (string \<Rightarrow> string + EnrichInfo option) \<Rightarrow>
   (string \<Rightarrow> string \<times> string option) \<Rightarrow> string + 't Logger" where
  "New lib eventLogFile modelConfig eCache sessionizer =
     (let formatter = \<lparr>TimestampFormat = RFC3339, FieldMap = [(FieldKeyTime, ''timestamp'')]\<rparr>
      in case osOpenFile lib eventLogFile of
           Some err \<Rightarrow> Inl err
         | None \<Rightarrow>
             Inr \<lparr>EnrichCache = eCache,
                  Sessionizer = sessionizer,
                  EventLogger =
                    \<lparr>Formatter = formatter,
                     Out = \<lparr>Name = eventLogFile,
                            Flag = [''O_APPEND'', ''O_CREATE'', ''O_WRONLY''],
                            Perm = 420\<rparr>\<rparr>,
                  LLMConfig = modelConfig\<rparr>)"

definition getHostname :: "Lib \<Rightarrow> string + string" where
  "getHostname lib =
     (case osHostname lib of
        Inl err \<Rightarrow> Inl (''failed to get hostname: '' @ err)
      | Inr hostname \<Rightarrow> Inr hostname)"

definition headerKeys :: "(string \<times> string list) list \<Rightarrow> string list" where
  "headerKeys headers = map fst headers"

definition headersSortedSha256 :: "Lib \<Rightarrow> string list \<Rightarrow> string" where
  "headersSortedSha256 lib keys = sha256Hex lib (Join keys '','')"

definition convertMap :: "(string \<times> string list) list \<Rightarrow> (string \<times> string) list" where
  "convertMap input = map (\<lambda>(key, values). (key, Join values '', '')) input"

text \<open>\<open>r.UserAgent()\<close>: the first value of the header \<open>User-Agent\<close>, or \<open>""\<close>.\<close>

definition UserAgent :: "Request \<Rightarrow> string" where
  "UserAgent r =
     (case map_of (Header r) ''User-Agent'' of
        Some (v # vs) \<Rightarrow> v
      | _ \<Rightarrow> [])"

text \<open>\<open>for k, v := range m { fields[prefix+k] = v }\<close>.\<close>

definition flatten ::
  "string \<Rightarrow> (string \<times> string) list \<Rightarrow> (string \<rightharpoonup> 't fieldValue) \<Rightarrow>
   (string \<rightharpoonup> 't fieldValue)" where
  "flatten prefix m flds = foldl (\<lambda>f (k, v). f(prefix @ k \<mapsto> Str v)) flds m"

text \<open>
  The parts of \<open>commonFields\<close>: the source address and port of the request (the whole
  remote address and \<open>""\<close> when it does not split); the tags and the host name that the
  enrichment gives, with the error it logs; the name of the sensor.
\<close>

definition sourceAddr :: "Lib \<Rightarrow> Request \<Rightarrow> string \<times> string" where
  "sourceAddr lib r =
     (case netSplitHostPort lib (RemoteAddr r) of
        Inl err \<Rightarrow> (RemoteAddr r, [])
      | Inr (srcIP, srcPort) \<Rightarrow> (srcIP, srcPort))"

definition enrichment :: "'t Logger \<Rightarrow> string \<Rightarrow> string list \<times> string \<times> 'ev effect list" where
  "enrichment l srcIP =
     (case EnrichCache l srcIP of
        Inl err \<Rightarrow>
          ([], [], [Errorf ''error getting enrichment info for %q: %s'' [srcIP, err]])
      | Inr None \<Rightarrow> ([], [], [])
      | Inr (Some srcIPInfo) \<Rightarrow>
          ((if KnownScanner srcIPInfo \<noteq> [] then [KnownScanner srcIPInfo] else []),
           (if Host srcIPInfo \<noteq> [] then Host srcIPInfo else []),
           []))"

definition sensorName :: "Lib \<Rightarrow> string" where
  "sensorName lib = (case getHostname lib of Inl err \<Rightarrow> uuidNewString lib | Inr h \<Rightarrow> h)"

text \<open>
  \<open>commonFields\<close> returns the fields and the calls of the diagnostic logger it made.
\<close>

definition commonFields ::
  "Lib \<Rightarrow> 't Logger \<Rightarrow> Request \<Rightarrow> string \<Rightarrow> (string \<rightharpoonup> 't fieldValue) \<times> 'ev effect list" where
  "commonFields lib l r port =
     (let (srcIP, srcPort) = sourceAddr lib r;
          (tags, host, es1) = enrichment l srcIP;
          keys = sort (headerKeys (Header r));
          bodyBytes = RBody r;
          (sessionID, serr) = Sessionizer l srcIP;
          es2 = (case serr of
                   Some err \<Rightarrow>
                     [Errorf ''error generating session ID for %q: %s'' [srcIP, err]]
                 | None \<Rightarrow> []);
          flds =
            [''src_ip'' \<mapsto> Str srcIP,
             ''hostname'' \<mapsto> Str host,
             ''src_port'' \<mapsto> Str srcPort,
             ''tags'' \<mapsto> Str (Join tags '',''),
             ''sensorName'' \<mapsto> Str (sensorName lib),
             ''dest_port'' \<mapsto> Str port,
             ''session'' \<mapsto> Str sessionID,
             ''request.method'' \<mapsto> Str (Method r),
             ''request.protocol'' \<mapsto> Str (Proto r),
             ''request.requestURI'' \<mapsto> Str (RequestURI r),
             ''request.userAgent'' \<mapsto> Str (UserAgent r),
             ''request.body'' \<mapsto> Str bodyBytes,
             ''request.bodySha256'' \<mapsto> Str (sha256Hex lib bodyBytes),
             ''request.headers.sorted'' \<mapsto> Str (Join keys '',''),
             ''request.headers.sortedSha256'' \<mapsto> Str (headersSortedSha256 lib keys)]
      in (flatten ''request.headers.'' (convertMap (Header r)) flds, es1 @ es2))"

text \<open>
  An entry of the event log: its level, its message and the fields it was given with
  \<open>WithFields\<close>.
\<close>

record 't Entry =
  Level :: string
  Message :: string
  Data :: "string \<rightharpoonup> 't fieldValue"

definition LogEvent ::
  "Lib \<Rightarrow> 't Logger \<Rightarrow> Request \<Rightarrow> HTTPResponse \<Rightarrow> string \<Rightarrow> string \<Rightarrow>
   't Entry \<times> 'ev effect list" where
  "LogEvent lib l r resp port respSource =
     (let (flds0, es) = commonFields lib l r port;
          flds1 = flatten ''response.headers.'' (Headers resp) flds0;
          flds =
            flds1(''response.body'' \<mapsto> Str (Body resp),
                    ''response.metadata.generationSource'' \<mapsto> Str respSource,
                    ''response.metadata.provider'' \<mapsto> Str (Provider (LLMConfig l)),
                    ''response.metadata.model'' \<mapsto> Str (Model (LLMConfig l)),
                    ''response.metadata.temperature'' \<mapsto> Num (Temperature (LLMConfig l)))
      in (\<lparr>Level = ''info'', Message = ''successfulResponse'', Data = flds\<rparr>, es))"

definition LogError ::
  "Lib \<Rightarrow> 't Logger \<Rightarrow> Request \<Rightarrow> string \<Rightarrow> string \<Rightarrow> string \<Rightarrow>
   't Entry \<times> 'ev effect list" where
  "LogError lib l r resp port errMsg =
     (let (flds0, es) = commonFields lib l r port;
          flds1 = flds0 ++ (\<lambda>k. map_option Str (errorFields errMsg resp k));
          flds =
            flds1(''response.metadata.provider'' \<mapsto> Str (Provider (LLMConfig l)),
                    ''response.metadata.model'' \<mapsto> Str (Model (LLMConfig l)),
                    ''response.metadata.temperature'' \<mapsto> Num (Temperature (LLMConfig l)))
      in (\<lparr>Level = ''error'',
           Message = ''failedResponse: returned 500 internal server error'',
           Data = flds\<rparr>, es))"

text \<open>
  For examples: library calls that split \<open>host:port\<close> at the first colon and take
  \<open>h(x)\<close> for the digest of \<open>x\<close>, and a logger whose enrichment knows one address
  as a scanner and whose sessionizer answers \<open>s\<close>.
\<close>

definition exampleLib :: Lib where
  "exampleLib =
     \<lparr>netSplitHostPort =
        (\<lambda>a. if CHR '':'' \<in> set a
              then Inr (takeWhile (\<lambda>c. c \<noteq> CHR '':'') a,
                        drop 1 (dropWhile (\<lambda>c. c \<noteq> CHR '':'') a))
              else Inl ''missing port in address''),
      osHostname = Inr ''sensor1'',
      uuidNewString = ''00000000-0000-4000-8000-000000000000'',
      sha256Hex = (\<lambda>x. ''h('' @ x @ '')''),
      osOpenFile = (\<lambda>name. None)\<rparr>"

definition exampleLogger :: "nat Logger" where
  "exampleLogger =
     \<lparr>EnrichCache =
        (\<lambda>ip. if ip = ''198.51.100.7''
              then Inr (Some \<lparr>KnownScanner = ''shodan'', Host = ''scanner.example''\<rparr>)
              else Inr None),
      Sessionizer = (\<lambda>ip. (''s'', None)),
      EventLogger =
        \<lparr>Formatter = \<lparr>TimestampFormat = RFC3339, FieldMap = [(FieldKeyTime, ''timestamp'')]\<rparr>,
         Out = \<lparr>Name = ''event_log.json'',
                Flag = [''O_APPEND'', ''O_CREATE'', ''O_WRONLY''], Perm = 420\<rparr>\<rparr>,
      LLMConfig = \<lparr>Provider = ''ollama'', Model = ''gemma2'', Temperature = 1\<rparr>\<rparr>"

subsection \<open>The sessionizer\<close>

text \<open>
  Modelled from the spec: the Sessionizer, whose \<open>Process\<close> method is called by
  \<open>commonFields\<close> and is not in the sources. It maps a source address to its session
  identifier and the time it was last seen. On a call, when the address has no entry or
  \<open>now - lastSeen\<close> exceeds the inactivity window, a new identifier is generated and
  recorded with \<open>lastSeen = now\<close>; otherwise the existing identifier is returned and
  \<open>lastSeen\<close> is set to \<open>now\<close>. Times and the window are integers (a number of time
  units). The generator of identifiers is the sequence \<open>uuid\<close>: its \<open>n\<close>-th draw is
  \<open>uuid n\<close>, and \<open>drawn\<close> counts the draws made so far.
\<close>

record Session =
  sessionID :: string
  lastSeen :: int

record SessionStore =
  entries :: "string \<rightharpoonup> Session"
  drawn :: nat

definition Process ::
  "(nat \<Rightarrow> string) \<Rightarrow> int \<Rightarrow> SessionStore \<Rightarrow> string \<Rightarrow> int \<Rightarrow> string \<times> SessionStore" where
  "Process uuid window st sourceIP now =
     (let fresh =
            (uuid (drawn st),
             \<lparr>entries = (entries st)(sourceIP \<mapsto> \<lparr>sessionID = uuid (drawn st), lastSeen = now\<rparr>),
              drawn = Suc (drawn st)\<rparr>)
      in case entries st sourceIP of
           None \<Rightarrow> fresh
         | Some s \<Rightarrow>
             if now - lastSeen s > window then fresh
             else (sessionID s,
                   st\<lparr>entries := (entries st)(sourceIP \<mapsto> s\<lparr>lastSeen := now\<rparr>)\<rparr>))"

text \<open>Calls for one source address at the given times, one after the other.\<close>

fun ProcessAll ::
  "(nat \<Rightarrow> string) \<Rightarrow> int \<Rightarrow> SessionStore \<Rightarrow> string \<Rightarrow> int list \<Rightarrow> string list \<times> SessionStore"
  where
  "ProcessAll uuid window st sourceIP [] = ([], st)"
| "ProcessAll uuid window st sourceIP (now # nows) =
     (let (sid, st1) = Process uuid window st sourceIP now;
          (sids, st2) = ProcessAll uuid window st1 sourceIP nows
      in (sid # sids, st2))"

text \<open>Every time of the list is within the window of the time before it.\<close>

fun withinWindow :: "int \<Rightarrow> int \<Rightarrow> int list \<Rightarrow> bool" where
  "withinWindow window seen [] = True"
| "withinWindow window seen (now # nows) =
     (\<not> now - seen > window \<and> withinWindow window now nows)"

text \<open>
  The identifiers in the store have been drawn: each is one of the first \<open>drawn\<close> draws.
\<close>

definition drawnOnly :: "(nat \<Rightarrow> string) \<Rightarrow> SessionStore \<Rightarrow> bool" where
  "drawnOnly uuid st =
     (\<forall>ip s. entries st ip = Some s \<longrightarrow> (\<exists>i < drawn st. sessionID s = uuid i))"

definition emptyStore :: SessionStore where
  "emptyStore = \<lparr>entries = Map.empty, drawn = 0\<rparr>"

text \<open>
  For examples: a generator whose \<open>n\<close>-th identifier is \<open>s\<close> followed by \<open>n\<close> times
  \<open>x\<close>, and a store in which one address was seen at time 0.
\<close>

definition exampleUUID :: "nat \<Rightarrow> string" where
  "exampleUUID n = CHR ''s'' # replicate n CHR ''x''"

definition exampleStore :: SessionStore where
  "exampleStore =
     \<lparr>entries = [''198.51.100.7'' \<mapsto> \<lparr>sessionID = ''s'', lastSeen = 0\<rparr>], drawn = 1\<rparr>"

section \<open>Properties\<close>

subsection \<open>Strings\<close>

lemma HasPrefix_append: "HasPrefix (p @ s) p"
  by (induction p) auto

lemma HasPrefix_iff: "HasPrefix s p \<longleftrightarrow> (\<exists>t. s = p @ t)"
  by (induction s p rule: HasPrefix.induct) auto

lemma Contains_iff: "Contains s sub \<longleftrightarrow> (\<exists>a b. s = a @ sub @ b)"
proof (induction s)
  case Nil
  then show ?case by auto
next
  case (Cons c cs)
  show ?case
  proof
    assume "Contains (c # cs) sub"
    then consider "HasPrefix (c # cs) sub" | "Contains cs sub" by auto
    then show "\<exists>a b. c # cs = a @ sub @ b"
    proof cases
      case 1
      then obtain t where "c # cs = sub @ t" by (auto simp: HasPrefix_iff)
      then have "c # cs = [] @ sub @ t" by simp
      then show ?thesis by blast
    next
      case 2
      then obtain a b where "cs = a @ sub @ b" using Cons.IH by auto
      then have "c # cs = (c # a) @ sub @ b" by simp
      then show ?thesis by blast
    qed
  next
    assume "\<exists>a b. c # cs = a @ sub @ b"
    then obtain a b where ab: "c # cs = a @ sub @ b" by auto
    show "Contains (c # cs) sub"
    proof (cases a)
      case Nil
      then have "HasPrefix (c # cs) sub" using ab by (auto simp: HasPrefix_iff)
      then show ?thesis by simp
    next
      case (Cons x xs)
      then have "cs = xs @ sub @ b" using ab by simp
      then have "Contains cs sub" using Cons.IH by blast
      then show ?thesis by simp
    qed
  qed
qed

lemma ReplaceAll_no_occurrence:
  "old \<noteq> [] \<Longrightarrow> \<not> Contains s old \<Longrightarrow> ReplaceAll s old new = s"
proof (induction s)
  case Nil
  then show ?case by (cases old) auto
next
  case (Cons c cs)
  then obtain p ps where old: "old = p # ps" by (cases old) auto
  from Cons.prems have np: "\<not> HasPrefix (c # cs) (p # ps)" and nc: "\<not> Contains cs old"
    by (auto simp: old)
  have "ReplaceAll (c # cs) (p # ps) new = c # ReplaceAll cs (p # ps) new"
    using np by (simp only: ReplaceAll.simps if_False)
  then show ?case using Cons.IH [OF Cons.prems(1) nc] by (simp add: old)
qed

lemma ReplaceAll_prefix:
  "old \<noteq> [] \<Longrightarrow> ReplaceAll (old @ rest) old [] = ReplaceAll rest old []"
proof -
  assume "old \<noteq> []"
  then obtain p ps where old: "old = p # ps" by (cases old) auto
  have "HasPrefix ((p # ps) @ rest) (p # ps)" by (rule HasPrefix_append)
  then show ?thesis by (simp add: old)
qed

subsection \<open>Header filtering\<close>

lemma isExcludedHeader_iff: "isExcludedHeader ul k \<longleftrightarrow> ToLower ul k \<in> exclusionSet"
  by (simp add: isExcludedHeader_def ignoreHeaders_def exclusionSet_def)

lemma setHeaders_filter:
  "setHeaders ul hs = map (\<lambda>(k, v). HeaderSet k v) (filter (\<lambda>(k, v). \<not> isExcludedHeader ul k) hs)"
  by (induction hs) auto

lemma setHeaders_member:
  "HeaderSet k v \<in> set (setHeaders ul hs) \<longleftrightarrow> (k, v) \<in> set hs \<and> \<not> isExcludedHeader ul k"
  by (induction hs) (auto split: if_splits)

lemma setHeaders_only_HeaderSet: "filter isHeaderSet (setHeaders ul hs) = setHeaders ul hs"
  by (induction hs) auto

lemma setHeaders_no_write: "filter isBodyWrite (setHeaders ul hs) = []"
  by (induction hs) auto


lemma sendResponse_headers:
  "filter isHeaderSet (sendResponse ul wr resp) = setHeaders ul (Headers resp)"
  by (simp add: sendResponse_def setHeaders_only_HeaderSet split: option.splits)

lemma sendResponse_writes:
  "filter isBodyWrite (sendResponse ul wr resp) = [Write (Body resp)]"
  by (simp add: sendResponse_def setHeaders_no_write split: option.splits)

lemma sendResponse_member:
  "HeaderSet k v \<in> set (sendResponse ul wr resp) \<longleftrightarrow>
     (k, v) \<in> set (Headers resp) \<and> \<not> isExcludedHeader ul k"
  by (auto simp: sendResponse_def setHeaders_member split: option.splits)

lemma excluded_Content_Type: "isExcludedHeader ul ''Content-Type''"
  by code_simp

lemma excluded_Date: "isExcludedHeader ul ''Date''"
  by code_simp

lemma not_excluded_X_Custom: "\<not> isExcludedHeader ul ''X-Custom''"
  by code_simp

lemma excluded_content_TYPE: "isExcludedHeader ul ''content-TYPE''"
  by code_simp

lemma excluded_DATE: "isExcludedHeader ul ''DATE''"
  by code_simp

lemma not_excluded_x_custom: "\<not> isExcludedHeader ul ''x-custom''"
  by code_simp

lemma excluded_EXPIRES_dotted:
  "isExcludedHeader exampleUnicodeLower (''EXP'' @ [CHR 0xC4, CHR 0xB0] @ ''RES'')"
  by code_simp

lemmas excluded_examples = excluded_Content_Type excluded_Date not_excluded_X_Custom
  excluded_content_TYPE excluded_DATE not_excluded_x_custom

text \<open>
  Claim C2. When a response record is sent, a header is set on the writer exactly when it
  is an entry of the record whose name, lower-cased by \<open>strings.ToLower\<close>, is outside
  the exclusion set (\<open>content-length\<close>, \<open>content-type\<close>, \<open>date\<close>, \<open>expires\<close>,
  \<open>last-modified\<close> and the placeholder names \<open>http\<close>, \<open>http/1.0\<close>, \<open>http/1.1\<close>,
  \<open>http/1.2\<close>, \<open>http/2.0\<close>); the calls pass the record's name and value unchanged, in the
  record's order, and the body is written once, as it is. For a record with
  \<open>Content-Type\<close>, \<open>Date\<close> and \<open>X-Custom\<close> only \<open>X-Custom\<close> is set, and so it is in any
  other spelling of the names in upper and lower case. Lower-casing maps \<open>A\<close> to \<open>Z\<close>
  to \<open>a\<close> to \<open>z\<close> in a name of ASCII characters and is the lower-casing of Unicode
  in any other name: the header \<open>EXP\<close>, U+0130, \<open>RES\<close>, which Unicode lower-cases to
  \<open>expires\<close>, is not set.
\<close>

theorem sendResponse_filters_headers:
  "(\<forall>k v. HeaderSet k v \<in> set (sendResponse ul wr resp :: 'ev effect list) \<longleftrightarrow>
           ((k, v) \<in> set (Headers resp) \<and> ToLower ul k \<notin> exclusionSet))
   \<and> filter isHeaderSet (sendResponse ul wr resp :: 'ev effect list) =
       map (\<lambda>(k, v). HeaderSet k v)
         (filter (\<lambda>(k, v). ToLower ul k \<notin> exclusionSet) (Headers resp))
   \<and> filter isBodyWrite (sendResponse ul wr resp :: 'ev effect list) = [Write (Body resp)]
   \<and> filter isHeaderSet
        (sendResponse ul wr
           \<lparr>Headers = [(''Content-Type'', ct), (''Date'', d), (''X-Custom'', x)], Body = b\<rparr>
         :: 'ev effect list) = [HeaderSet ''X-Custom'' x]
   \<and> filter isHeaderSet
        (sendResponse ul wr
           \<lparr>Headers = [(''content-TYPE'', ct), (''x-custom'', x), (''DATE'', d)], Body = b\<rparr>
         :: 'ev effect list) = [HeaderSet ''x-custom'' x]
   \<and> (\<forall>k v. HeaderSet k v \<in> set (sendResponse ul wr resp :: 'ev effect list) \<longleftrightarrow>
           ((k, v) \<in> set (Headers resp)
            \<and> (if list_all (\<lambda>c. (of_char c :: nat) < 128) k then map toLowerChar k else ul k)
                \<notin> exclusionSet))
   \<and> filter isHeaderSet
        (sendResponse exampleUnicodeLower wr
           \<lparr>Headers = [(''EXP'' @ [CHR 0xC4, CHR 0xB0] @ ''RES'', e), (''X-Custom'', x)],
            Body = b\<rparr>
         :: 'ev effect list) = [HeaderSet ''X-Custom'' x]"
proof -
  have 1: "\<forall>k v. HeaderSet k v \<in> set (sendResponse ul wr resp :: 'ev effect list) \<longleftrightarrow>
           ((k, v) \<in> set (Headers resp) \<and> ToLower ul k \<notin> exclusionSet)"
    by (simp add: sendResponse_member isExcludedHeader_iff)
  have 2: "filter isHeaderSet (sendResponse ul wr resp :: 'ev effect list) =
       map (\<lambda>(k, v). HeaderSet k v)
         (filter (\<lambda>(k, v). ToLower ul k \<notin> exclusionSet) (Headers resp))"
    by (simp add: sendResponse_headers setHeaders_filter isExcludedHeader_iff)
  have 3: "filter isBodyWrite (sendResponse ul wr resp :: 'ev effect list) = [Write (Body resp)]"
    by (rule sendResponse_writes)
  have 4: "filter isHeaderSet
        (sendResponse ul wr
           \<lparr>Headers = [(''Content-Type'', ct), (''Date'', d), (''X-Custom'', x)], Body = b\<rparr>
         :: 'ev effect list) = [HeaderSet ''X-Custom'' x]"
    by (simp add: sendResponse_headers excluded_examples)
  have 5: "filter isHeaderSet
        (sendResponse ul wr
           \<lparr>Headers = [(''content-TYPE'', ct), (''x-custom'', x), (''DATE'', d)], Body = b\<rparr>
         :: 'ev effect list) = [HeaderSet ''x-custom'' x]"
    by (simp add: sendResponse_headers excluded_examples)
  have 6: "(\<forall>k v. HeaderSet k v \<in> set (sendResponse ul wr resp :: 'ev effect list) \<longleftrightarrow>
           ((k, v) \<in> set (Headers resp)
            \<and> (if list_all (\<lambda>c. (of_char c :: nat) < 128) k then map toLowerChar k else ul k)
                \<notin> exclusionSet))"
    by (simp add: sendResponse_member isExcludedHeader_iff ToLower_def isASCII_def)
  have 7: "filter isHeaderSet
        (sendResponse exampleUnicodeLower wr
           \<lparr>Headers = [(''EXP'' @ [CHR 0xC4, CHR 0xB0] @ ''RES'', e), (''X-Custom'', x)],
            Body = b\<rparr>
         :: 'ev effect list) = [HeaderSet ''X-Custom'' x]"
    using excluded_EXPIRES_dotted by (simp add: sendResponse_headers excluded_examples)
  from 1 2 3 4 5 6 7 show ?thesis by (intro conjI)
qed

subsection \<open>Error classification\<close>

lemma marker_nonempty:
  "errorInvalidJSONResponse @ '': '' \<noteq> []" "errorEmptyLLMResponse @ '': '' \<noteq> []"
  "errorContentGeneration @ '': '' \<noteq> []"
  by (simp_all add: errorInvalidJSONResponse_def errorEmptyLLMResponse_def
      errorContentGeneration_def)

lemma Contains_marker_prefix: "Contains ((mk @ '': '') @ rest) mk"
proof -
  have "(mk @ '': '') @ rest = [] @ mk @ ('': '' @ rest)" by simp
  then show ?thesis unfolding Contains_iff by blast
qed

lemma ReplaceAll_strips_prefix:
  assumes "mk @ '': '' \<noteq> []" and "\<not> Contains rest (mk @ '': '')"
  shows "ReplaceAll ((mk @ '': '') @ rest) (mk @ '': '') [] = rest"
  using ReplaceAll_prefix [OF assms(1), of rest]
    ReplaceAll_no_occurrence [OF assms(1) assms(2), of "[]"]
  by simp

lemma errorFields_invalidJSON:
  "Contains m errorInvalidJSONResponse \<Longrightarrow>
   errorFields m resp =
     [''type'' \<mapsto> errorInvalidJSONResponse,
      ''msg'' \<mapsto> ReplaceAll m (errorInvalidJSONResponse @ '': '') [],
      ''invalidResponse'' \<mapsto> resp]"
  by (simp add: errorFields_def)

lemma errorFields_empty:
  "\<not> Contains m errorInvalidJSONResponse \<Longrightarrow> Contains m errorEmptyLLMResponse \<Longrightarrow>
   errorFields m resp =
     [''type'' \<mapsto> errorEmptyLLMResponse,
      ''msg'' \<mapsto> ReplaceAll m (errorEmptyLLMResponse @ '': '') [],
      ''invalidResponse'' \<mapsto> resp]"
  by (simp add: errorFields_def)

lemma errorFields_default:
  "\<not> Contains m errorInvalidJSONResponse \<Longrightarrow> \<not> Contains m errorEmptyLLMResponse \<Longrightarrow>
   errorFields m resp =
     [''type'' \<mapsto> errorContentGeneration,
      ''msg'' \<mapsto> ReplaceAll m (errorContentGeneration @ '': '') [],
      ''invalidResponse'' \<mapsto> resp]"
  by (simp add: errorFields_def)

text \<open>
  Claim C3. \<open>errorFields\<close> looks for the markers in the raw message in priority order:
  a message containing the invalid-JSON marker is classified \<open>invalidJSONResponse\<close>;
  otherwise one containing the empty-response marker is classified \<open>emptyLLMResponse\<close>;
  every other message is classified \<open>contentGenerationError\<close>. The stored message is the
  raw message with the marker prefix of its class (the marker followed by a colon and a
  space) removed, so a message that starts with the marker prefix is stored as the text
  that follows it; the raw response text is recorded next to the class.
\<close>

theorem errorFields_classification:
  "(Contains m errorInvalidJSONResponse \<longrightarrow>
      errorFields m resp =
        [''type'' \<mapsto> errorInvalidJSONResponse,
         ''msg'' \<mapsto> ReplaceAll m (errorInvalidJSONResponse @ '': '') [],
         ''invalidResponse'' \<mapsto> resp])
   \<and> (\<not> Contains m errorInvalidJSONResponse \<and> Contains m errorEmptyLLMResponse \<longrightarrow>
      errorFields m resp =
        [''type'' \<mapsto> errorEmptyLLMResponse,
         ''msg'' \<mapsto> ReplaceAll m (errorEmptyLLMResponse @ '': '') [],
         ''invalidResponse'' \<mapsto> resp])
   \<and> (\<not> Contains m errorInvalidJSONResponse \<and> \<not> Contains m errorEmptyLLMResponse \<longrightarrow>
      errorFields m resp =
        [''type'' \<mapsto> errorContentGeneration,
         ''msg'' \<mapsto> ReplaceAll m (errorContentGeneration @ '': '') [],
         ''invalidResponse'' \<mapsto> resp])
   \<and> (\<not> Contains rest (errorInvalidJSONResponse @ '': '') \<longrightarrow>
      errorFields ((errorInvalidJSONResponse @ '': '') @ rest) resp =
        [''type'' \<mapsto> errorInvalidJSONResponse, ''msg'' \<mapsto> rest,
         ''invalidResponse'' \<mapsto> resp])
   \<and> (\<not> Contains ((errorEmptyLLMResponse @ '': '') @ rest) errorInvalidJSONResponse
        \<and> \<not> Contains rest (errorEmptyLLMResponse @ '': '') \<longrightarrow>
      errorFields ((errorEmptyLLMResponse @ '': '') @ rest) resp =
        [''type'' \<mapsto> errorEmptyLLMResponse, ''msg'' \<mapsto> rest,
         ''invalidResponse'' \<mapsto> resp])"
proof (intro conjI impI)
  assume "Contains m errorInvalidJSONResponse"
  then show "errorFields m resp =
        [''type'' \<mapsto> errorInvalidJSONResponse,
         ''msg'' \<mapsto> ReplaceAll m (errorInvalidJSONResponse @ '': '') [],
         ''invalidResponse'' \<mapsto> resp]"
    by (rule errorFields_invalidJSON)
next
  assume "\<not> Contains m errorInvalidJSONResponse \<and> Contains m errorEmptyLLMResponse"
  then show "errorFields m resp =
        [''type'' \<mapsto> errorEmptyLLMResponse,
         ''msg'' \<mapsto> ReplaceAll m (errorEmptyLLMResponse @ '': '') [],
         ''invalidResponse'' \<mapsto> resp]"
    by (simp add: errorFields_empty)
next
  assume "\<not> Contains m errorInvalidJSONResponse \<and> \<not> Contains m errorEmptyLLMResponse"
  then show "errorFields m resp =
        [''type'' \<mapsto> errorContentGeneration,
         ''msg'' \<mapsto> ReplaceAll m (errorContentGeneration @ '': '') [],
         ''invalidResponse'' \<mapsto> resp]"
    by (simp add: errorFields_default)
next
  assume n: "\<not> Contains rest (errorInvalidJSONResponse @ '': '')"
  have c: "Contains ((errorInvalidJSONResponse @ '': '') @ rest) errorInvalidJSONResponse"
    by (rule Contains_marker_prefix)
  show "errorFields ((errorInvalidJSONResponse @ '': '') @ rest) resp =
        [''type'' \<mapsto> errorInvalidJSONResponse, ''msg'' \<mapsto> rest,
         ''invalidResponse'' \<mapsto> resp]"
    by (simp only: errorFields_invalidJSON [OF c]
        ReplaceAll_strips_prefix [OF marker_nonempty(1) n])
next
  assume a: "\<not> Contains ((errorEmptyLLMResponse @ '': '') @ rest) errorInvalidJSONResponse
        \<and> \<not> Contains rest (errorEmptyLLMResponse @ '': '')"
  have c: "Contains ((errorEmptyLLMResponse @ '': '') @ rest) errorEmptyLLMResponse"
    by (rule Contains_marker_prefix)
  from a have n1: "\<not> Contains ((errorEmptyLLMResponse @ '': '') @ rest) errorInvalidJSONResponse"
    and n2: "\<not> Contains rest (errorEmptyLLMResponse @ '': '')" by simp_all
  show "errorFields ((errorEmptyLLMResponse @ '': '') @ rest) resp =
        [''type'' \<mapsto> errorEmptyLLMResponse, ''msg'' \<mapsto> rest,
         ''invalidResponse'' \<mapsto> resp]"
    by (simp only: errorFields_empty [OF n1 c]
        ReplaceAll_strips_prefix [OF marker_nonempty(2) n2])
qed

theorem errorFields_classification_witness:
  "errorFields ''invalidJSONResponse: unexpected end of JSON input'' ''{'' =
     [''type'' \<mapsto> ''invalidJSONResponse'', ''msg'' \<mapsto> ''unexpected end of JSON input'',
      ''invalidResponse'' \<mapsto> ''{'']
   \<and> errorFields ''emptyLLMResponse: no content'' [] =
     [''type'' \<mapsto> ''emptyLLMResponse'', ''msg'' \<mapsto> ''no content'',
      ''invalidResponse'' \<mapsto> []]
   \<and> errorFields ''connection refused'' [] =
     [''type'' \<mapsto> ''contentGenerationError'', ''msg'' \<mapsto> ''connection refused'',
      ''invalidResponse'' \<mapsto> []]"
proof -
  have a1: "\<not> Contains ''unexpected end of JSON input'' (errorInvalidJSONResponse @ '': '')"
    by code_simp
  have a2: "\<not> Contains ((errorEmptyLLMResponse @ '': '') @ ''no content'') errorInvalidJSONResponse
     \<and> \<not> Contains ''no content'' (errorEmptyLLMResponse @ '': '')"
    by code_simp
  have a3: "\<not> Contains ''connection refused'' errorInvalidJSONResponse
     \<and> \<not> Contains ''connection refused'' errorEmptyLLMResponse"
    by code_simp
  have r3: "ReplaceAll ''connection refused'' (errorContentGeneration @ '': '') [] =
     ''connection refused''"
    by code_simp
  have e1: "errorFields ((errorInvalidJSONResponse @ '': '') @ ''unexpected end of JSON input'') ''{'' =
     [''type'' \<mapsto> errorInvalidJSONResponse, ''msg'' \<mapsto> ''unexpected end of JSON input'',
      ''invalidResponse'' \<mapsto> ''{'']"
    using errorFields_classification [where rest = "''unexpected end of JSON input''" and resp = "''{''"] a1
    by blast
  have e2: "errorFields ((errorEmptyLLMResponse @ '': '') @ ''no content'') [] =
     [''type'' \<mapsto> errorEmptyLLMResponse, ''msg'' \<mapsto> ''no content'',
      ''invalidResponse'' \<mapsto> []]"
    using errorFields_classification [where rest = "''no content''" and resp = "[]"] a2
    by blast
  have e3: "errorFields ''connection refused'' [] =
     [''type'' \<mapsto> errorContentGeneration,
      ''msg'' \<mapsto> ReplaceAll ''connection refused'' (errorContentGeneration @ '': '') [],
      ''invalidResponse'' \<mapsto> []]"
    using errorFields_classification [where m = "''connection refused''" and resp = "[]"] a3
    by blast
  have s1: "(errorInvalidJSONResponse @ '': '') @ ''unexpected end of JSON input'' =
     ''invalidJSONResponse: unexpected end of JSON input''"
    by (simp add: errorInvalidJSONResponse_def)
  have s2: "(errorEmptyLLMResponse @ '': '') @ ''no content'' = ''emptyLLMResponse: no content''"
    by (simp add: errorEmptyLLMResponse_def)
  show ?thesis
    using e1 e2 e3 unfolding s1 s2 r3
    by (simp add: errorInvalidJSONResponse_def errorEmptyLLMResponse_def
        errorContentGeneration_def)
qed

subsection \<open>The request handler\<close>

lemma setHeaders_no_clientWrite: "filter isClientWrite (setHeaders ul hs) = []"
  by (induction hs) auto

lemma setHeaders_no_store: "filter isStore (setHeaders ul hs) = []"
  by (induction hs) auto

lemma setHeaders_no_llm: "filter isLLMCall (setHeaders ul hs) = []"
  by (induction hs) auto

lemma setHeaders_no_errorf: "filter isErrorf (setHeaders ul hs) = []"
  by (induction hs) auto

lemma sendResponse_clientWrite:
  "filter isClientWrite (sendResponse ul wr resp) = [Write (Body resp)]"
  by (simp add: sendResponse_def setHeaders_no_clientWrite split: option.splits)

lemma sendResponse_no_store: "filter isStore (sendResponse ul wr resp) = []"
  by (simp add: sendResponse_def setHeaders_no_store split: option.splits)

lemma sendResponse_no_llm: "filter isLLMCall (sendResponse ul wr resp) = []"
  by (simp add: sendResponse_def setHeaders_no_llm split: option.splits)

lemmas sendResponse_filters =
  sendResponse_clientWrite sendResponse_no_store sendResponse_no_llm
  sendResponse_writes sendResponse_headers

lemma handleRequest_hit_ok:
  assumes "checkCache app st r (destPort app addr) = Inr b"
    and "jsonUnmarshal app b = Inr resp"
  shows "handleRequest app st r addr =
    (st, [Infof ''port %s received a request for %q, from source %s''
            [destPort app addr, URL r, RemoteAddr r],
          CheckCache r (destPort app addr)] @
         sendResponse (unicodeToLower app) (clientWrite app) resp @
         [Infof ''sent the generated response to %s'' [RemoteAddr r],
          WriteLog (makeEvent app r resp (destPort app addr))])"
  using assms by (simp add: handleRequest_def Let_def)

lemma handleRequest_hit_bad:
  assumes "checkCache app st r (destPort app addr) = Inr b"
    and "jsonUnmarshal app b = Inl pe"
  shows "handleRequest app st r addr =
    (st, [Infof ''port %s received a request for %q, from source %s''
            [destPort app addr, URL r, RemoteAddr r],
          CheckCache r (destPort app addr),
          Errorf ''error unmarshalling the json-encoded data: %s'' [pe],
          HttpError ''Internal Server Error'' 500])"
  using assms by (simp add: handleRequest_def Let_def)

lemma handleRequest_gen_fail:
  assumes "checkCache app st r (destPort app addr) = Inl e"
    and "generateLLMResponse app st r = (Inl ge, st1)"
  shows "handleRequest app st r addr =
    (st1, [Infof ''port %s received a request for %q, from source %s''
            [destPort app addr, URL r, RemoteAddr r],
          CheckCache r (destPort app addr),
          Infof ''request cache miss for %q: %s'' [URL r, e],
          GenerateLLMResponse r,
          Errorf ''error generating response: %s'' [ge],
          HttpError ''Internal Server Error'' 500])"
  using assms by (simp add: handleRequest_def Let_def)

lemma handleRequest_miss_ok:
  assumes "checkCache app st r (destPort app addr) = Inl e"
    and "generateLLMResponse app st r = (Inr s, st1)"
    and "storeResponse app st1 (getCacheKey app r (destPort app addr)) s = (serr, st2)"
    and "jsonUnmarshal app s = Inr resp"
  shows "handleRequest app st r addr =
    (st2, [Infof ''port %s received a request for %q, from source %s''
            [destPort app addr, URL r, RemoteAddr r],
          CheckCache r (destPort app addr),
          Infof ''request cache miss for %q: %s'' [URL r, e],
          GenerateLLMResponse r,
          Infof ''generated HTTP response: %s'' [s],
          StoreResponse (getCacheKey app r (destPort app addr)) s] @
         sendResponse (unicodeToLower app) (clientWrite app) resp @
         [Infof ''sent the generated response to %s'' [RemoteAddr r],
          WriteLog (makeEvent app r resp (destPort app addr))])"
  using assms by (simp add: handleRequest_def Let_def)

lemma handleRequest_miss_bad:
  assumes "checkCache app st r (destPort app addr) = Inl e"
    and "generateLLMResponse app st r = (Inr s, st1)"
    and "storeResponse app st1 (getCacheKey app r (destPort app addr)) s = (serr, st2)"
    and "jsonUnmarshal app s = Inl pe"
  shows "handleRequest app st r addr =
    (st2, [Infof ''port %s received a request for %q, from source %s''
            [destPort app addr, URL r, RemoteAddr r],
          CheckCache r (destPort app addr),
          Infof ''request cache miss for %q: %s'' [URL r, e],
          GenerateLLMResponse r,
          Infof ''generated HTTP response: %s'' [s],
          StoreResponse (getCacheKey app r (destPort app addr)) s,
          Errorf ''error unmarshalling the json-encoded data: %s'' [pe],
          HttpError ''Internal Server Error'' 500])"
  using assms by (simp add: handleRequest_def Let_def)

text \<open>The five ways through \<open>handleRequest\<close>.\<close>

lemma handleRequest_cases:
  obtains (hit_ok) b resp where "checkCache app st r (destPort app addr) = Inr b"
      "jsonUnmarshal app b = Inr resp"
  | (hit_bad) b pe where "checkCache app st r (destPort app addr) = Inr b"
      "jsonUnmarshal app b = Inl pe"
  | (gen_fail) e ge st1 where "checkCache app st r (destPort app addr) = Inl e"
      "generateLLMResponse app st r = (Inl ge, st1)"
  | (miss_ok) e s st1 serr st2 resp where "checkCache app st r (destPort app addr) = Inl e"
      "generateLLMResponse app st r = (Inr s, st1)"
      "storeResponse app st1 (getCacheKey app r (destPort app addr)) s = (serr, st2)"
      "jsonUnmarshal app s = Inr resp"
  | (miss_bad) e s st1 serr st2 pe where "checkCache app st r (destPort app addr) = Inl e"
      "generateLLMResponse app st r = (Inr s, st1)"
      "storeResponse app st1 (getCacheKey app r (destPort app addr)) s = (serr, st2)"
      "jsonUnmarshal app s = Inl pe"
proof (cases "checkCache app st r (destPort app addr)")
  case (Inr b)
  then show ?thesis using hit_ok hit_bad by (cases "jsonUnmarshal app b") auto
next
  case (Inl e)
  obtain g st1 where g: "generateLLMResponse app st r = (g, st1)" by fastforce
  show ?thesis
  proof (cases g)
    case (Inl ge)
    then show ?thesis using gen_fail \<open>checkCache app st r (destPort app addr) = Inl e\<close> g by auto
  next
    case (Inr s)
    obtain serr st2 where
      s: "storeResponse app st1 (getCacheKey app r (destPort app addr)) s = (serr, st2)"
      by fastforce
    show ?thesis
      using miss_ok miss_bad \<open>checkCache app st r (destPort app addr) = Inl e\<close> g Inr s
      by (cases "jsonUnmarshal app s") auto
  qed
qed

lemma handleRequest_counts:
  "length (filter isClientWrite (snd (handleRequest app st r addr))) = 1
   \<and> length (filter isStore (snd (handleRequest app st r addr))) \<le> 1
   \<and> length (filter isLLMCall (snd (handleRequest app st r addr))) \<le> 1
   \<and> length (filter isBodyWrite (snd (handleRequest app st r addr))) \<le> 1"
proof (cases rule: handleRequest_cases [of app st r addr])
  case hit_ok
  then show ?thesis by (simp add: handleRequest_hit_ok [OF hit_ok] sendResponse_filters)
next
  case hit_bad
  then show ?thesis by (simp add: handleRequest_hit_bad [OF hit_bad])
next
  case gen_fail
  then show ?thesis by (simp add: handleRequest_gen_fail [OF gen_fail])
next
  case miss_ok
  then show ?thesis by (simp add: handleRequest_miss_ok [OF miss_ok] sendResponse_filters)
next
  case miss_bad
  then show ?thesis by (simp add: handleRequest_miss_bad [OF miss_bad])
qed

text \<open>
  Claim C1 (as amended). Handling a request writes to the client exactly once, stores in
  the cache at most once and calls the generation backend at most once. At most one
  response record is sent: exactly one when the payload parses, none when generation or
  parsing fails. The record comes from the cache on a hit, and then the generation
  backend is not called and nothing is stored; on a miss it comes from the one
  generation call.
\<close>

theorem handleRequest_one_reply:
  "length (filter isClientWrite (snd (handleRequest app st r addr))) = 1
   \<and> length (filter isStore (snd (handleRequest app st r addr))) \<le> 1
   \<and> length (filter isLLMCall (snd (handleRequest app st r addr))) \<le> 1
   \<and> length (filter isBodyWrite (snd (handleRequest app st r addr))) \<le> 1
   \<and> (\<forall>b. checkCache app st r (destPort app addr) = Inr b \<longrightarrow>
         filter isLLMCall (snd (handleRequest app st r addr)) = []
         \<and> filter isStore (snd (handleRequest app st r addr)) = []
         \<and> (case jsonUnmarshal app b of
              Inr resp \<Rightarrow>
                filter isBodyWrite (snd (handleRequest app st r addr)) = [Write (Body resp)]
                \<and> filter isHeaderSet (snd (handleRequest app st r addr)) =
                    setHeaders (unicodeToLower app) (Headers resp)
            | Inl pe \<Rightarrow>
                filter isBodyWrite (snd (handleRequest app st r addr)) = []
                \<and> filter isHeaderSet (snd (handleRequest app st r addr)) = []))
   \<and> (\<forall>e. checkCache app st r (destPort app addr) = Inl e \<longrightarrow>
         filter isLLMCall (snd (handleRequest app st r addr)) = [GenerateLLMResponse r]
         \<and> (case fst (generateLLMResponse app st r) of
              Inl ge \<Rightarrow>
                filter isStore (snd (handleRequest app st r addr)) = []
                \<and> filter isBodyWrite (snd (handleRequest app st r addr)) = []
                \<and> filter isHeaderSet (snd (handleRequest app st r addr)) = []
            | Inr s \<Rightarrow>
                filter isStore (snd (handleRequest app st r addr)) =
                  [StoreResponse (getCacheKey app r (destPort app addr)) s]
                \<and> (case jsonUnmarshal app s of
                     Inr resp \<Rightarrow>
                       filter isBodyWrite (snd (handleRequest app st r addr)) =
                         [Write (Body resp)]
                       \<and> filter isHeaderSet (snd (handleRequest app st r addr)) =
                           setHeaders (unicodeToLower app) (Headers resp)
                   | Inl pe \<Rightarrow>
                       filter isBodyWrite (snd (handleRequest app st r addr)) = []
                       \<and> filter isHeaderSet (snd (handleRequest app st r addr)) = [])))"
proof -
  have origin: "(\<forall>b. checkCache app st r (destPort app addr) = Inr b \<longrightarrow>
         filter isLLMCall (snd (handleRequest app st r addr)) = []
         \<and> filter isStore (snd (handleRequest app st r addr)) = []
         \<and> (case jsonUnmarshal app b of
              Inr resp \<Rightarrow>
                filter isBodyWrite (snd (handleRequest app st r addr)) = [Write (Body resp)]
                \<and> filter isHeaderSet (snd (handleRequest app st r addr)) =
                    setHeaders (unicodeToLower app) (Headers resp)
            | Inl pe \<Rightarrow>
                filter isBodyWrite (snd (handleRequest app st r addr)) = []
                \<and> filter isHeaderSet (snd (handleRequest app st r addr)) = []))
   \<and> (\<forall>e. checkCache app st r (destPort app addr) = Inl e \<longrightarrow>
         filter isLLMCall (snd (handleRequest app st r addr)) = [GenerateLLMResponse r]
         \<and> (case fst (generateLLMResponse app st r) of
              Inl ge \<Rightarrow>
                filter isStore (snd (handleRequest app st r addr)) = []
                \<and> filter isBodyWrite (snd (handleRequest app st r addr)) = []
                \<and> filter isHeaderSet (snd (handleRequest app st r addr)) = []
            | Inr s \<Rightarrow>
                filter isStore (snd (handleRequest app st r addr)) =
                  [StoreResponse (getCacheKey app r (destPort app addr)) s]
                \<and> (case jsonUnmarshal app s of
                     Inr resp \<Rightarrow>
                       filter isBodyWrite (snd (handleRequest app st r addr)) =
                         [Write (Body resp)]
                       \<and> filter isHeaderSet (snd (handleRequest app st r addr)) =
                           setHeaders (unicodeToLower app) (Headers resp)
                   | Inl pe \<Rightarrow>
                       filter isBodyWrite (snd (handleRequest app st r addr)) = []
                       \<and> filter isHeaderSet (snd (handleRequest app st r addr)) = [])))"
  proof (cases rule: handleRequest_cases [of app st r addr])
    case hit_ok
    then show ?thesis by (simp add: handleRequest_hit_ok [OF hit_ok] sendResponse_filters)
  next
    case hit_bad
    then show ?thesis by (simp add: handleRequest_hit_bad [OF hit_bad])
  next
    case gen_fail
    then show ?thesis by (simp add: handleRequest_gen_fail [OF gen_fail])
  next
    case miss_ok
    then show ?thesis by (simp add: handleRequest_miss_ok [OF miss_ok] sendResponse_filters)
  next
    case miss_bad
    then show ?thesis by (simp add: handleRequest_miss_bad [OF miss_bad])
  qed
  from handleRequest_counts [of app st r addr] origin show ?thesis by blast
qed

theorem handleRequest_one_reply_witness:
  "filter isBodyWrite
     (snd (handleRequest (exampleApp llmOk None exampleParse) [] exampleRequest '':80'')) =
     [Write ''root:x:0:0:'']
   \<and> filter isLLMCall
     (snd (handleRequest (exampleApp llmOk None exampleParse) [] exampleRequest '':80'')) =
     [GenerateLLMResponse exampleRequest]
   \<and> filter isBodyWrite
     (snd (handleRequest (exampleApp llmOk None exampleParse) [(''GET|/etc/passwd|Accept,User-Agent||80'', ''ok'')]
        exampleRequest '':80'')) = [Write ''root:x:0:0:'']
   \<and> filter isLLMCall
     (snd (handleRequest (exampleApp llmOk None exampleParse) [(''GET|/etc/passwd|Accept,User-Agent||80'', ''ok'')]
        exampleRequest '':80'')) = []"
proof -
  let ?app = "exampleApp llmOk None exampleParse"
  have miss: "checkCache ?app [] exampleRequest (destPort ?app '':80'') = Inl ''not found in cache''"
    by code_simp
  have gen: "fst (generateLLMResponse ?app [] exampleRequest) = Inr ''ok''"
    by code_simp
  have hit: "checkCache ?app [(''GET|/etc/passwd|Accept,User-Agent||80'', ''ok'')] exampleRequest (destPort ?app '':80'')
      = Inr ''ok''"
    by code_simp
  have parse: "jsonUnmarshal ?app ''ok'' = Inr exampleResponse"
    by code_simp
  have body: "Body exampleResponse = ''root:x:0:0:''"
    by (simp add: exampleResponse_def)
  from handleRequest_one_reply [of ?app "[]" exampleRequest "'':80''"] miss gen parse body
  have m: "filter isBodyWrite (snd (handleRequest ?app [] exampleRequest '':80'')) =
       [Write ''root:x:0:0:'']
     \<and> filter isLLMCall (snd (handleRequest ?app [] exampleRequest '':80'')) =
       [GenerateLLMResponse exampleRequest]"
    by simp
  from handleRequest_one_reply [of ?app "[(''GET|/etc/passwd|Accept,User-Agent||80'', ''ok'')]" exampleRequest "'':80''"]
    hit parse body
  have h: "filter isBodyWrite
       (snd (handleRequest ?app [(''GET|/etc/passwd|Accept,User-Agent||80'', ''ok'')] exampleRequest '':80'')) =
       [Write ''root:x:0:0:'']
     \<and> filter isLLMCall
       (snd (handleRequest ?app [(''GET|/etc/passwd|Accept,User-Agent||80'', ''ok'')] exampleRequest '':80'')) = []"
    by simp
  from m h show ?thesis by blast
qed

text \<open>
  Claim C1 as stated fails where generation fails: the handler replies with an error and
  sends no response record.
\<close>

theorem handleRequest_no_record_counterexample:
  "length (filter isBodyWrite
     (snd (handleRequest (exampleApp llmTimeout None exampleParse) [] exampleRequest '':80'')))
   = 0
   \<and> filter isHeaderSet
     (snd (handleRequest (exampleApp llmTimeout None exampleParse) [] exampleRequest '':80''))
   = []"
  by code_simp

text \<open>
  Claim C4 (as amended). When generation fails, or the payload (cached or generated) does
  not parse, the handler logs the error on the diagnostic logger, answers the client with
  \<open>http.Error\<close>, status 500 and the message \<open>Internal Server Error\<close> (the body is that
  line), and sends nothing of a response record: no header of a record is set and no
  record body is written.
\<close>

theorem handleRequest_failure_reply:
  "(\<forall>e ge st1.
      checkCache app st r (destPort app addr) = Inl e
      \<and> generateLLMResponse app st r = (Inl ge, st1) \<longrightarrow>
        filter isErrorf (snd (handleRequest app st r addr)) =
          [Errorf ''error generating response: %s'' [ge]]
        \<and> filter isClientWrite (snd (handleRequest app st r addr)) =
          [HttpError ''Internal Server Error'' 500]
        \<and> filter isBodyWrite (snd (handleRequest app st r addr)) = []
        \<and> filter isHeaderSet (snd (handleRequest app st r addr)) = [])
   \<and> (\<forall>b pe.
      checkCache app st r (destPort app addr) = Inr b \<and> jsonUnmarshal app b = Inl pe \<longrightarrow>
        filter isErrorf (snd (handleRequest app st r addr)) =
          [Errorf ''error unmarshalling the json-encoded data: %s'' [pe]]
        \<and> filter isClientWrite (snd (handleRequest app st r addr)) =
          [HttpError ''Internal Server Error'' 500]
        \<and> filter isBodyWrite (snd (handleRequest app st r addr)) = []
        \<and> filter isHeaderSet (snd (handleRequest app st r addr)) = [])
   \<and> (\<forall>e s st1 pe.
      checkCache app st r (destPort app addr) = Inl e
      \<and> generateLLMResponse app st r = (Inr s, st1)
      \<and> jsonUnmarshal app s = Inl pe \<longrightarrow>
        filter isErrorf (snd (handleRequest app st r addr)) =
          [Errorf ''error unmarshalling the json-encoded data: %s'' [pe]]
        \<and> filter isClientWrite (snd (handleRequest app st r addr)) =
          [HttpError ''Internal Server Error'' 500]
        \<and> filter isBodyWrite (snd (handleRequest app st r addr)) = []
        \<and> filter isHeaderSet (snd (handleRequest app st r addr)) = [])
   \<and> map clientBody [HttpError ''Internal Server Error'' 500 :: 'ev effect] =
       [''Internal Server Error'' @ [CHR 0x0A]]"
proof (intro conjI allI impI)
  fix e ge st1
  assume "checkCache app st r (destPort app addr) = Inl e
      \<and> generateLLMResponse app st r = (Inl ge, st1)"
  then have h: "checkCache app st r (destPort app addr) = Inl e"
      "generateLLMResponse app st r = (Inl ge, st1)" by simp_all
  note eq = handleRequest_gen_fail [OF h]
  show "filter isErrorf (snd (handleRequest app st r addr)) =
          [Errorf ''error generating response: %s'' [ge]]" by (simp add: eq)
  show "filter isClientWrite (snd (handleRequest app st r addr)) =
          [HttpError ''Internal Server Error'' 500]" by (simp add: eq)
  show "filter isBodyWrite (snd (handleRequest app st r addr)) = []" by (simp add: eq)
  show "filter isHeaderSet (snd (handleRequest app st r addr)) = []" by (simp add: eq)
next
  fix b pe
  assume "checkCache app st r (destPort app addr) = Inr b \<and> jsonUnmarshal app b = Inl pe"
  then have h: "checkCache app st r (destPort app addr) = Inr b"
      "jsonUnmarshal app b = Inl pe" by simp_all
  note eq = handleRequest_hit_bad [OF h]
  show "filter isErrorf (snd (handleRequest app st r addr)) =
          [Errorf ''error unmarshalling the json-encoded data: %s'' [pe]]" by (simp add: eq)
  show "filter isClientWrite (snd (handleRequest app st r addr)) =
          [HttpError ''Internal Server Error'' 500]" by (simp add: eq)
  show "filter isBodyWrite (snd (handleRequest app st r addr)) = []" by (simp add: eq)
  show "filter isHeaderSet (snd (handleRequest app st r addr)) = []" by (simp add: eq)
next
  fix e s st1 pe
  assume "checkCache app st r (destPort app addr) = Inl e
      \<and> generateLLMResponse app st r = (Inr s, st1)
      \<and> jsonUnmarshal app s = Inl pe"
  then have h: "checkCache app st r (destPort app addr) = Inl e"
      "generateLLMResponse app st r = (Inr s, st1)" "jsonUnmarshal app s = Inl pe"
    by simp_all
  obtain serr st2 where
    st: "storeResponse app st1 (getCacheKey app r (destPort app addr)) s = (serr, st2)"
    by fastforce
  note eq = handleRequest_miss_bad [OF h(1) h(2) st h(3)]
  show "filter isErrorf (snd (handleRequest app st r addr)) =
          [Errorf ''error unmarshalling the json-encoded data: %s'' [pe]]" by (simp add: eq)
  show "filter isClientWrite (snd (handleRequest app st r addr)) =
          [HttpError ''Internal Server Error'' 500]" by (simp add: eq)
  show "filter isBodyWrite (snd (handleRequest app st r addr)) = []" by (simp add: eq)
  show "filter isHeaderSet (snd (handleRequest app st r addr)) = []" by (simp add: eq)
next
  show "map clientBody [HttpError ''Internal Server Error'' 500 :: 'ev effect] =
       [''Internal Server Error'' @ [CHR 0x0A]]" by simp
qed

theorem handleRequest_failure_reply_witness:
  "filter isClientWrite
     (snd (handleRequest (exampleApp llmTimeout None exampleParse) [] exampleRequest '':80''))
     = [HttpError ''Internal Server Error'' 500]
   \<and> filter isErrorf
     (snd (handleRequest (exampleApp llmTimeout None exampleParse) [] exampleRequest '':80''))
     = [Errorf ''error generating response: %s'' [''timeout'']]
   \<and> filter isClientWrite
     (snd (handleRequest (exampleApp llmJunk None exampleParse) [] exampleRequest '':80''))
     = [HttpError ''Internal Server Error'' 500]
   \<and> filter isClientWrite
     (snd (handleRequest (exampleApp llmJunk None exampleParse) [(''GET|/etc/passwd|Accept,User-Agent||80'', ''junk'')]
        exampleRequest '':80''))
     = [HttpError ''Internal Server Error'' 500]"
proof -
  let ?t = "exampleApp llmTimeout None exampleParse"
  let ?j = "exampleApp llmJunk None exampleParse"
  have t1: "checkCache ?t [] exampleRequest (destPort ?t '':80'') = Inl ''not found in cache''
      \<and> generateLLMResponse ?t [] exampleRequest = (Inl ''timeout'', [])"
    by code_simp
  have j1: "checkCache ?j [] exampleRequest (destPort ?j '':80'') = Inl ''not found in cache''
      \<and> generateLLMResponse ?j [] exampleRequest = (Inr ''junk'', [])
      \<and> jsonUnmarshal ?j ''junk'' = Inl ''invalid character''"
    by code_simp
  have j2: "checkCache ?j [(''GET|/etc/passwd|Accept,User-Agent||80'', ''junk'')] exampleRequest (destPort ?j '':80'')
        = Inr ''junk''
      \<and> jsonUnmarshal ?j ''junk'' = Inl ''invalid character''"
    by code_simp
  from handleRequest_failure_reply [of ?t "[]" exampleRequest "'':80''"] t1
  have a: "filter isClientWrite (snd (handleRequest ?t [] exampleRequest '':80''))
      = [HttpError ''Internal Server Error'' 500]
    \<and> filter isErrorf (snd (handleRequest ?t [] exampleRequest '':80''))
      = [Errorf ''error generating response: %s'' [''timeout'']]"
    by blast
  from handleRequest_failure_reply [of ?j "[]" exampleRequest "'':80''"] j1
  have b: "filter isClientWrite (snd (handleRequest ?j [] exampleRequest '':80''))
      = [HttpError ''Internal Server Error'' 500]"
    by blast
  from handleRequest_failure_reply [of ?j "[(''GET|/etc/passwd|Accept,User-Agent||80'', ''junk'')]" exampleRequest "'':80''"] j2
  have c: "filter isClientWrite
      (snd (handleRequest ?j [(''GET|/etc/passwd|Accept,User-Agent||80'', ''junk'')] exampleRequest '':80''))
      = [HttpError ''Internal Server Error'' 500]"
    by blast
  from a b c show ?thesis by blast
qed

text \<open>
  Claim C4 as stated fails where generation fails: the reply to the client has a body, the
  line \<open>Internal Server Error\<close>, and the handler hands no event to the event log.
\<close>

theorem handleRequest_failure_body_counterexample:
  "concat (map clientBody
     (snd (handleRequest (exampleApp llmTimeout None exampleParse) [] exampleRequest '':80'')))
   = ''Internal Server Error'' @ [CHR 0x0A]
   \<and> filter isWriteLog
     (snd (handleRequest (exampleApp llmTimeout None exampleParse) [] exampleRequest '':80''))
   = []"
  by code_simp

text \<open>
  Claim C7, at a store that fails. The response still reaches the client, and the effects of
  the handler hold no call of the logger about the failed store: the error that
  \<open>storeResponse\<close> returns is dropped.
\<close>

theorem handleRequest_store_failure_unlogged:
  "snd (handleRequest (exampleApp llmOk (Some ''database is locked'') exampleParse) []
      exampleRequest '':80'') =
     [Infof ''port %s received a request for %q, from source %s''
        [''80'', ''/etc/passwd'', ''198.51.100.7:40000''],
      CheckCache exampleRequest ''80'',
      Infof ''request cache miss for %q: %s'' [''/etc/passwd'', ''not found in cache''],
      GenerateLLMResponse exampleRequest,
      Infof ''generated HTTP response: %s'' [''ok''],
      StoreResponse ''GET|/etc/passwd|Accept,User-Agent||80'' ''ok'',
      HeaderSet ''Server'' ''Apache/2.4.38'',
      Write ''root:x:0:0:'',
      Infof ''sent the generated response to %s'' [''198.51.100.7:40000''],
      WriteLog (exampleRequest, exampleResponse, ''80'')]
   \<and> fst (handleRequest (exampleApp llmOk (Some ''database is locked'') exampleParse) []
      exampleRequest '':80'') = []"
  by code_simp

lemma handleRequests_cached_failure:
  assumes law: "\<And>r' a'. getCacheKey app r' (destPort app a') = k \<Longrightarrow>
                  checkCache app st2 r' (destPort app a') = Inr s"
    and bad: "jsonUnmarshal app s = Inl pe"
  shows "(\<forall>ra \<in> set reqs. getCacheKey app (fst ra) (destPort app (snd ra)) = k) \<Longrightarrow>
         handleRequests app st2 reqs = (st2, concat (map (cachedFailure app pe) reqs))"
proof (induction reqs)
  case Nil
  then show ?case by simp
next
  case (Cons ra reqs)
  obtain r' a' where ra: "ra = (r', a')" by (cases ra)
  from Cons.prems have k: "getCacheKey app r' (destPort app a') = k" by (simp add: ra)
  have one: "handleRequest app st2 r' a' = (st2, cachedFailure app pe (r', a'))"
    using handleRequest_hit_bad [OF law [OF k] bad] by (simp add: cachedFailure_def)
  from Cons.prems have "\<forall>ra \<in> set reqs. getCacheKey app (fst ra) (destPort app (snd ra)) = k"
    by simp
  then have rest: "handleRequests app st2 reqs = (st2, concat (map (cachedFailure app pe) reqs))"
    by (rule Cons.IH)
  show ?case by (simp add: ra one rest)
qed

text \<open>
  Claim C10. On a miss the generated string is stored under the request's key before it is
  parsed. When the store succeeds and the string does not parse, the client receives the
  500 reply and the string stays in the cache; every later request with the same key
  then finds it there, fails the same parse and receives the 500 reply, and the generation
  backend is not called again. That a lookup finds what a successful store has put under
  the key is the contract of the cache.
\<close>

theorem unparseable_payload_stays_cached:
  assumes miss: "checkCache app st r (destPort app addr) = Inl e"
    and gen: "generateLLMResponse app st r = (Inr s, st1)"
    and store: "storeResponse app st1 (getCacheKey app r (destPort app addr)) s = (None, st2)"
    and bad: "jsonUnmarshal app s = Inl pe"
    and law: "\<And>r' a'. getCacheKey app r' (destPort app a') = getCacheKey app r (destPort app addr)
                \<Longrightarrow> checkCache app st2 r' (destPort app a') = Inr s"
  shows "handleRequest app st r addr =
      (st2, [Infof ''port %s received a request for %q, from source %s''
               [destPort app addr, URL r, RemoteAddr r],
             CheckCache r (destPort app addr),
             Infof ''request cache miss for %q: %s'' [URL r, e],
             GenerateLLMResponse r,
             Infof ''generated HTTP response: %s'' [s],
             StoreResponse (getCacheKey app r (destPort app addr)) s,
             Errorf ''error unmarshalling the json-encoded data: %s'' [pe],
             HttpError ''Internal Server Error'' 500])
    \<and> (\<forall>reqs.
         (\<forall>ra \<in> set reqs. getCacheKey app (fst ra) (destPort app (snd ra)) =
                            getCacheKey app r (destPort app addr)) \<longrightarrow>
         handleRequests app st2 reqs = (st2, concat (map (cachedFailure app pe) reqs))
         \<and> filter isLLMCall (snd (handleRequests app st2 reqs)) = []
         \<and> filter isClientWrite (snd (handleRequests app st2 reqs)) =
             map (\<lambda>ra. HttpError ''Internal Server Error'' 500) reqs)"
proof (intro conjI allI impI)
  show "handleRequest app st r addr =
      (st2, [Infof ''port %s received a request for %q, from source %s''
               [destPort app addr, URL r, RemoteAddr r],
             CheckCache r (destPort app addr),
             Infof ''request cache miss for %q: %s'' [URL r, e],
             GenerateLLMResponse r,
             Infof ''generated HTTP response: %s'' [s],
             StoreResponse (getCacheKey app r (destPort app addr)) s,
             Errorf ''error unmarshalling the json-encoded data: %s'' [pe],
             HttpError ''Internal Server Error'' 500])"
    by (rule handleRequest_miss_bad [OF miss gen store bad])
next
  fix reqs
  assume same: "\<forall>ra \<in> set reqs. getCacheKey app (fst ra) (destPort app (snd ra)) =
                            getCacheKey app r (destPort app addr)"
  show eq: "handleRequests app st2 reqs = (st2, concat (map (cachedFailure app pe) reqs))"
    using handleRequests_cached_failure [OF law bad same] .
  show "filter isLLMCall (snd (handleRequests app st2 reqs)) = []"
    unfolding eq by (induction reqs) (simp_all add: cachedFailure_def)
  show "filter isClientWrite (snd (handleRequests app st2 reqs)) =
             map (\<lambda>ra. HttpError ''Internal Server Error'' 500) reqs"
    unfolding eq by (induction reqs) (simp_all add: cachedFailure_def)
qed

theorem unparseable_payload_stays_cached_witness:
  "handleRequest (exampleApp llmJunk None exampleParse) [] exampleRequest '':80'' =
     ([(''GET|/etc/passwd|Accept,User-Agent||80'', ''junk'')],
      [Infof ''port %s received a request for %q, from source %s''
         [''80'', ''/etc/passwd'', ''198.51.100.7:40000''],
       CheckCache exampleRequest ''80'',
       Infof ''request cache miss for %q: %s'' [''/etc/passwd'', ''not found in cache''],
       GenerateLLMResponse exampleRequest,
       Infof ''generated HTTP response: %s'' [''junk''],
       StoreResponse ''GET|/etc/passwd|Accept,User-Agent||80'' ''junk'',
       Errorf ''error unmarshalling the json-encoded data: %s'' [''invalid character''],
       HttpError ''Internal Server Error'' 500])
   \<and> filter isLLMCall
       (snd (handleRequests (exampleApp llmJunk None exampleParse)
          [(''GET|/etc/passwd|Accept,User-Agent||80'', ''junk'')]
          [(exampleRequest, '':80''), (exampleRequest, '':80'')])) = []
   \<and> filter isClientWrite
       (snd (handleRequests (exampleApp llmJunk None exampleParse)
          [(''GET|/etc/passwd|Accept,User-Agent||80'', ''junk'')]
          [(exampleRequest, '':80''), (exampleRequest, '':80'')])) =
       [HttpError ''Internal Server Error'' 500, HttpError ''Internal Server Error'' 500]"
proof -
  let ?app = "exampleApp llmJunk None exampleParse"
  let ?st2 = "[(''GET|/etc/passwd|Accept,User-Agent||80'', ''junk'')]"
  have port: "destPort ?app '':80'' = ''80''" by code_simp
  have key: "getCacheKey ?app exampleRequest ''80'' = ''GET|/etc/passwd|Accept,User-Agent||80''" by code_simp
  have miss: "checkCache ?app [] exampleRequest (destPort ?app '':80'') = Inl ''not found in cache''"
    by code_simp
  have gen: "generateLLMResponse ?app [] exampleRequest = (Inr ''junk'', [])"
    by code_simp
  have store: "storeResponse ?app [] (getCacheKey ?app exampleRequest (destPort ?app '':80''))
      ''junk'' = (None, ?st2)"
    by code_simp
  have bad: "jsonUnmarshal ?app ''junk'' = Inl ''invalid character''"
    by code_simp
  have law: "\<And>r' a'. getCacheKey ?app r' (destPort ?app a') =
                  getCacheKey ?app exampleRequest (destPort ?app '':80'')
                \<Longrightarrow> checkCache ?app ?st2 r' (destPort ?app a') = Inr ''junk''"
    unfolding port key by (simp add: exampleApp_def)
  have same: "\<forall>ra \<in> set [(exampleRequest, '':80''), (exampleRequest, '':80'')].
      getCacheKey ?app (fst ra) (destPort ?app (snd ra)) =
      getCacheKey ?app exampleRequest (destPort ?app '':80'')"
    by simp
  note main = unparseable_payload_stays_cached [OF miss gen store bad law]
  from main have one: "handleRequest ?app [] exampleRequest '':80'' =
      (?st2, [Infof ''port %s received a request for %q, from source %s''
               [destPort ?app '':80'', URL exampleRequest, RemoteAddr exampleRequest],
             CheckCache exampleRequest (destPort ?app '':80''),
             Infof ''request cache miss for %q: %s'' [URL exampleRequest, ''not found in cache''],
             GenerateLLMResponse exampleRequest,
             Infof ''generated HTTP response: %s'' [''junk''],
             StoreResponse (getCacheKey ?app exampleRequest (destPort ?app '':80'')) ''junk'',
             Errorf ''error unmarshalling the json-encoded data: %s'' [''invalid character''],
             HttpError ''Internal Server Error'' 500])"
    by blast
  from main same have later:
    "filter isLLMCall (snd (handleRequests ?app ?st2
        [(exampleRequest, '':80''), (exampleRequest, '':80'')])) = []
     \<and> filter isClientWrite (snd (handleRequests ?app ?st2
        [(exampleRequest, '':80''), (exampleRequest, '':80'')])) =
       map (\<lambda>ra. HttpError ''Internal Server Error'' 500)
         [(exampleRequest, '':80''), (exampleRequest, '':80'')]"
    by blast
  have fields: "URL exampleRequest = ''/etc/passwd''"
    "RemoteAddr exampleRequest = ''198.51.100.7:40000''"
    by (simp_all add: exampleRequest_def)
  from one later show ?thesis unfolding port key fields by simp
qed

subsection \<open>Starting the listeners\<close>

lemma showNat_examples:
  "showNat 80 = ''80''" "showNat 8080 = ''8080''" "showNat 443 = ''443''"
  "showNat 8443 = ''8443''" "showNat 21 = ''21''"
  by (simp_all add: showNat.simps digit_def)

lemma listener_snd:
  "snd (listener net cfg pc :: 'ev effect list \<times> string option call) = listenerOutcome net cfg pc"
  by (simp add: listenerOutcome_def listener_def startTLSServer_def startHTTPServer_def Let_def
      split: option.splits prod.splits call.splits)

text \<open>
  The goroutine of a binding never returns \<open>nil\<close>: a binding that does not pass the
  checks returns an error, and the listening calls of \<open>net/http\<close> return one or do not
  return.
\<close>

lemma listener_never_nil: "listenerOutcome net cfg pc \<noteq> Returned None"
  by (simp add: listenerOutcome_def listener_def startTLSServer_def startHTTPServer_def Let_def
      split: option.splits call.splits)

lemma listenerOutcome_tls_unconfigured:
  "Protocol pc = ''TLS'' \<Longrightarrow> TLSProfile pc = [] \<Longrightarrow>
   listenerOutcome net cfg pc =
     Returned (Some (''TLS profile is not configured for port '' @ showNat (unat (Port pc))))"
  by (simp add: listenerOutcome_def listener_def startTLSServer_def Let_def)

lemma listenerOutcome_tls_incomplete:
  "Protocol pc = ''TLS'' \<Longrightarrow> TLSProfile pc \<noteq> [] \<Longrightarrow>
   \<forall>t. TLS cfg (TLSProfile pc) = Some t \<longrightarrow> Certificate t = [] \<or> Key t = [] \<Longrightarrow>
   listenerOutcome net cfg pc =
     Returned (Some (''TLS profile is incomplete for port '' @ showNat (unat (Port pc))))"
  by (auto simp: listenerOutcome_def listener_def startTLSServer_def Let_def
      split: option.splits)

lemma listenerOutcome_unknown_protocol:
  "Protocol pc \<noteq> ''TLS'' \<Longrightarrow> Protocol pc \<noteq> ''HTTP'' \<Longrightarrow>
   listenerOutcome net cfg pc =
     Returned (Some (''unknown protocol for port '' @ showNat (unat (Port pc))))"
  by (simp add: listenerOutcome_def listener_def Let_def)

lemma listenerOutcome_http:
  "Protocol pc = ''HTTP'' \<Longrightarrow>
   listenerOutcome net cfg pc =
     (case ListenAndServe net (setupServer pc) of
        Blocked \<Rightarrow> Blocked | Returned err \<Rightarrow> Returned (Some err))"
  by (simp add: listenerOutcome_def listener_def startHTTPServer_def Let_def
      split: call.splits)

text \<open>The step of \<open>runListeners\<close> for each outcome of a goroutine.\<close>

lemma runListeners_blocked:
  "listener net cfg pc = (les, Blocked) \<Longrightarrow>
   runListeners net cfg (pc # pcs) g =
     runListeners net cfg pcs (g\<lparr>serving := serving g @ [Port pc], logged := logged g @ les\<rparr>)"
  by simp

lemma runListeners_failed:
  "listener net cfg pc = (les, Returned (Some e)) \<Longrightarrow>
   runListeners net cfg (pc # pcs) g =
     runListeners net cfg pcs
       (g\<lparr>firstErr := (case firstErr g of None \<Rightarrow> Some e | Some f \<Rightarrow> Some f),
          logged := logged g @ les\<rparr>)"
  by simp

text \<open>No goroutine returns \<open>nil\<close>, so none puts its server into \<open>app.Servers\<close>.\<close>

lemma runListeners_Servers: "Servers (runListeners net cfg pcs g) = Servers g"
proof (induction pcs arbitrary: g)
  case Nil
  show ?case by simp
next
  case (Cons pc pcs)
  obtain les res where l: "listener net cfg pc = (les :: 'a effect list, res)" by fastforce
  then have o: "listenerOutcome net cfg pc = res"
    using listener_snd [of net cfg pc, where 'ev = 'a] by simp
  show ?case
  proof (cases res)
    case Blocked
    show ?thesis unfolding runListeners_blocked [OF l [unfolded Blocked]] Cons.IH by simp
  next
    case (Returned err)
    with o listener_never_nil [of net cfg pc] obtain e where e: "err = Some e"
      by (cases err) auto
    show ?thesis unfolding runListeners_failed [OF l [unfolded Returned e]] Cons.IH by simp
  qed
qed

lemma startServers_Servers: "Servers (fst (startServers net cfg sched)) = []"
  by (simp add: startServers_def Let_def runListeners_Servers)

text \<open>The ports that serve are those of the goroutines that have not returned.\<close>

lemma runListeners_serving:
  "serving (runListeners net cfg pcs (g :: 'ev Group)) =
   serving g @ map Port (filter (\<lambda>pc. listenerOutcome net cfg pc = Blocked) pcs)"
proof (induction pcs arbitrary: g)
  case Nil
  show ?case by simp
next
  case (Cons pc pcs)
  obtain les res where l: "listener net cfg pc = (les :: 'ev effect list, res)" by fastforce
  then have o: "listenerOutcome net cfg pc = res"
    using listener_snd [of net cfg pc, where 'ev = 'ev] by simp
  show ?case
  proof (cases res)
    case Blocked
    show ?thesis
      unfolding runListeners_blocked [OF l [unfolded Blocked]] Cons.IH
      using o Blocked by simp
  next
    case (Returned err)
    with o listener_never_nil [of net cfg pc] obtain e where e: "err = Some e"
      by (cases err) auto
    show ?thesis
      unfolding runListeners_failed [OF l [unfolded Returned e]] Cons.IH
      using o Returned by simp
  qed
qed

text \<open>
  \<open>startServers\<close> has returned exactly when no listener serves: as long as one binding
  has bound, the error of a binding that failed is not returned.
\<close>

lemma startServers_blocked_iff:
  "snd (startServers net cfg sched :: 'ev Group \<times> string option call) = Blocked \<longleftrightarrow>
   (\<exists>pc \<in> set (sched (Ports cfg)). listenerOutcome net cfg pc = Blocked)"
  by (auto simp: startServers_def Let_def runListeners_serving filter_empty_conv)

lemma exampleConfig_Ports:
  "Ports exampleConfig =
     [\<lparr>Port = 80, Protocol = ''HTTP'', TLSProfile = []\<rparr>,
      \<lparr>Port = 8080, Protocol = ''HTTP'', TLSProfile = []\<rparr>,
      \<lparr>Port = 443, Protocol = ''TLS'', TLSProfile = ''tls_profile1''\<rparr>,
      \<lparr>Port = 8443, Protocol = ''TLS'', TLSProfile = ''tls_profile1''\<rparr>]"
  "Ports noProfileConfig = Ports exampleConfig"
  by (simp_all add: exampleConfig_def noProfileConfig_def)

lemma busyNet_listeners:
  "listener busyNet exampleConfig \<lparr>Port = 80, Protocol = ''HTTP'', TLSProfile = []\<rparr> =
     ([Infof ''starting HTTP server on port %d'' [''80'']] :: unit effect list, Blocked)"
  "listener busyNet exampleConfig \<lparr>Port = 8080, Protocol = ''HTTP'', TLSProfile = []\<rparr> =
     ([Infof ''starting HTTP server on port %d'' [''8080''],
       Errorf ''error starting server on port %d: %s''
         [''8080'', ''listen tcp :8080: bind: address already in use'']] :: unit effect list,
      Returned (Some ''listen tcp :8080: bind: address already in use''))"
  "listener busyNet exampleConfig \<lparr>Port = 443, Protocol = ''TLS'', TLSProfile = ''tls_profile1''\<rparr> =
     ([Infof ''starting HTTPS server on port %d with TLS profile: %s''
         [''443'', ''tls_profile1'']] :: unit effect list, Blocked)"
  "listener busyNet exampleConfig \<lparr>Port = 8443, Protocol = ''TLS'', TLSProfile = ''tls_profile1''\<rparr> =
     ([Infof ''starting HTTPS server on port %d with TLS profile: %s''
         [''8443'', ''tls_profile1'']] :: unit effect list, Blocked)"
  by (simp_all add: listener_def startHTTPServer_def startTLSServer_def busyNet_def
      exampleConfig_def setupServer_def Let_def showNat_examples)

lemma noProfile_listeners:
  "listener servingNet noProfileConfig \<lparr>Port = 80, Protocol = ''HTTP'', TLSProfile = []\<rparr> =
     ([Infof ''starting HTTP server on port %d'' [''80'']] :: unit effect list, Blocked)"
  "listener servingNet noProfileConfig \<lparr>Port = 8080, Protocol = ''HTTP'', TLSProfile = []\<rparr> =
     ([Infof ''starting HTTP server on port %d'' [''8080'']] :: unit effect list, Blocked)"
  "listener servingNet noProfileConfig
     \<lparr>Port = 443, Protocol = ''TLS'', TLSProfile = ''tls_profile1''\<rparr> =
     ([Errorf ''error starting server on port %d: %s''
         [''443'', ''TLS profile is incomplete for port 443'']] :: unit effect list,
      Returned (Some ''TLS profile is incomplete for port 443''))"
  "listener servingNet noProfileConfig
     \<lparr>Port = 8443, Protocol = ''TLS'', TLSProfile = ''tls_profile1''\<rparr> =
     ([Errorf ''error starting server on port %d: %s''
         [''8443'', ''TLS profile is incomplete for port 8443'']] :: unit effect list,
      Returned (Some ''TLS profile is incomplete for port 8443''))"
  by (simp_all add: listener_def startHTTPServer_def startTLSServer_def servingNet_def
      noProfileConfig_def exampleConfig_def setupServer_def Let_def showNat_examples)

text \<open>
  Claim C6, at the shipped configuration with port 8080 in use, and at the same bindings
  with no TLS profile. The listeners of the other bindings bind and serve. The failure is
  logged and kept by the group, but \<open>g.Wait()\<close> waits for the goroutines of the serving
  listeners: \<open>startServers\<close> does not return the error, and the program goes on with the
  listeners that did bind.
\<close>

theorem startServers_waits_with_a_partial_set:
  "startServers busyNet exampleConfig id =
     (\<lparr>Servers = [],
       firstErr = Some ''listen tcp :8080: bind: address already in use'',
       serving = [80, 443, 8443],
       logged =
         [Infof ''starting HTTP server on port %d'' [''80''],
          Infof ''starting HTTP server on port %d'' [''8080''],
          Errorf ''error starting server on port %d: %s''
            [''8080'', ''listen tcp :8080: bind: address already in use''],
          Infof ''starting HTTPS server on port %d with TLS profile: %s''
            [''443'', ''tls_profile1''],
          Infof ''starting HTTPS server on port %d with TLS profile: %s''
            [''8443'', ''tls_profile1''] :: unit effect]\<rparr>,
      Blocked)
   \<and> startServers servingNet noProfileConfig id =
     (\<lparr>Servers = [],
       firstErr = Some ''TLS profile is incomplete for port 443'',
       serving = [80, 8080],
       logged =
         [Infof ''starting HTTP server on port %d'' [''80''],
          Infof ''starting HTTP server on port %d'' [''8080''],
          Errorf ''error starting server on port %d: %s''
            [''443'', ''TLS profile is incomplete for port 443''],
          Errorf ''error starting server on port %d: %s''
            [''8443'', ''TLS profile is incomplete for port 8443''] :: unit effect]\<rparr>,
      Blocked)"
proof -
  have a: "startServers busyNet exampleConfig id =
     (\<lparr>Servers = [],
       firstErr = Some ''listen tcp :8080: bind: address already in use'',
       serving = [80, 443, 8443],
       logged =
         [Infof ''starting HTTP server on port %d'' [''80''],
          Infof ''starting HTTP server on port %d'' [''8080''],
          Errorf ''error starting server on port %d: %s''
            [''8080'', ''listen tcp :8080: bind: address already in use''],
          Infof ''starting HTTPS server on port %d with TLS profile: %s''
            [''443'', ''tls_profile1''],
          Infof ''starting HTTPS server on port %d with TLS profile: %s''
            [''8443'', ''tls_profile1''] :: unit effect]\<rparr>,
      Blocked)"
    unfolding startServers_def id_apply exampleConfig_Ports
    by (simp add: busyNet_listeners Let_def)
  have b: "startServers servingNet noProfileConfig id =
     (\<lparr>Servers = [],
       firstErr = Some ''TLS profile is incomplete for port 443'',
       serving = [80, 8080],
       logged =
         [Infof ''starting HTTP server on port %d'' [''80''],
          Infof ''starting HTTP server on port %d'' [''8080''],
          Errorf ''error starting server on port %d: %s''
            [''443'', ''TLS profile is incomplete for port 443''],
          Errorf ''error starting server on port %d: %s''
            [''8443'', ''TLS profile is incomplete for port 8443''] :: unit effect]\<rparr>,
      Blocked)"
    unfolding startServers_def id_apply exampleConfig_Ports
    by (simp add: noProfile_listeners Let_def)
  from a b show ?thesis by (rule conjI)
qed

subsection \<open>Shutdown\<close>

lemma servingNet_serving:
  "serving (fst (startServers servingNet exampleConfig id :: unit Group \<times> string option call)) =
     [80, 8080, 443, 8443]"
proof -
  have "\<forall>pc \<in> set (Ports exampleConfig). listenerOutcome servingNet exampleConfig pc = Blocked"
    by (simp add: exampleConfig_Ports listenerOutcome_def listener_def startHTTPServer_def
        startTLSServer_def servingNet_def exampleConfig_def Let_def)
  then have "filter (\<lambda>pc. listenerOutcome servingNet exampleConfig pc = Blocked)
      (Ports exampleConfig) = Ports exampleConfig"
    by (simp add: filter_id_conv)
  then show ?thesis
    unfolding startServers_def Let_def fst_conv id_apply runListeners_serving
    by (simp add: exampleConfig_Ports)
qed

text \<open>
  Claim C9. A server is put into \<open>app.Servers\<close> only by a goroutine of \<open>startServers\<close>
  that returns \<open>nil\<close>, and none does: whatever the network, the configuration and the
  order of the goroutines, \<open>app.Servers\<close> is empty, so on the signal the program calls
  \<open>Shutdown\<close> on no server and exits with status 0. At the shipped configuration this is
  so while the four listeners serve, when port 8080 is in use and the three others
  serve, and once every listener has been closed. A server that is in \<open>app.Servers\<close> is
  shut down by the handler: had the server of port 80 been registered, \<open>Shutdown\<close>
  would have been called on it before the exit.
\<close>

theorem shutdown_reaches_no_serving_listener:
  "Servers (fst (startServers net cfg sched :: 'ev Group \<times> string option call)) = []
   \<and> listenForShutdownSignals net
       (Servers (fst (startServers net cfg sched :: 'ev Group \<times> string option call))) =
     [Infof ''received shutdown signal. shutting down servers...'' [],
      Infoln ''all servers shut down gracefully.'',
      Exit 0 :: 'ev effect]
   \<and> serving (fst (startServers servingNet exampleConfig id
       :: unit Group \<times> string option call)) = [80, 8080, 443, 8443]
   \<and> Servers (fst (startServers servingNet exampleConfig id
       :: unit Group \<times> string option call)) = []
   \<and> listenForShutdownSignals servingNet
       (Servers (fst (startServers servingNet exampleConfig id
          :: unit Group \<times> string option call))) =
     [Infof ''received shutdown signal. shutting down servers...'' [],
      Infoln ''all servers shut down gracefully.'',
      Exit 0 :: unit effect]
   \<and> Servers (fst (startServers busyNet exampleConfig id
       :: unit Group \<times> string option call)) = []
   \<and> Servers (fst (startServers closedNet exampleConfig id
       :: unit Group \<times> string option call)) = []
   \<and> listenForShutdownSignals servingNet
       [(80, \<lparr>Addr = '':80'', ReadTimeout = 10, WriteTimeout = 10\<rparr>)] =
     [Infof ''received shutdown signal. shutting down servers...'' [],
      Shutdown '':80'',
      Infoln ''all servers shut down gracefully.'',
      Exit 0 :: unit effect]"
proof -
  have "ServerShutdown servingNet \<lparr>Addr = '':80'', ReadTimeout = 10, WriteTimeout = 10\<rparr> = None"
    by (simp add: servingNet_def)
  then show ?thesis
    by (simp add: startServers_Servers servingNet_serving listenForShutdownSignals_def)
qed

subsection \<open>The sessionizer\<close>

lemma Process_within:
  "entries st ip = Some s \<Longrightarrow> \<not> now - lastSeen s > window \<Longrightarrow>
   Process uuid window st ip now =
     (sessionID s, st\<lparr>entries := (entries st)(ip \<mapsto> \<lparr>sessionID = sessionID s, lastSeen = now\<rparr>)\<rparr>)"
  by (cases s) (simp add: Process_def)

lemma Process_new:
  "entries st ip = None \<or> (\<exists>s. entries st ip = Some s \<and> now - lastSeen s > window) \<Longrightarrow>
   Process uuid window st ip now =
     (uuid (drawn st),
      \<lparr>entries = (entries st)(ip \<mapsto> \<lparr>sessionID = uuid (drawn st), lastSeen = now\<rparr>),
       drawn = Suc (drawn st)\<rparr>)"
  by (auto simp: Process_def)

lemma drawnOnly_Process:
  assumes "drawnOnly uuid st"
  shows "drawnOnly uuid (snd (Process uuid window st ip now))"
proof (cases "entries st ip = None \<or> (\<exists>s. entries st ip = Some s \<and> now - lastSeen s > window)")
  case True
  show ?thesis
    unfolding Process_new [OF True] drawnOnly_def
  proof (intro allI impI)
    fix ip' s'
    assume a: "entries (snd (uuid (drawn st),
        \<lparr>entries = (entries st)(ip \<mapsto> \<lparr>sessionID = uuid (drawn st), lastSeen = now\<rparr>),
         drawn = Suc (drawn st)\<rparr>)) ip' = Some s'"
    show "\<exists>i < drawn (snd (uuid (drawn st),
        \<lparr>entries = (entries st)(ip \<mapsto> \<lparr>sessionID = uuid (drawn st), lastSeen = now\<rparr>),
         drawn = Suc (drawn st)\<rparr>)). sessionID s' = uuid i"
    proof (cases "ip' = ip")
      case True
      with a have "sessionID s' = uuid (drawn st)" by auto
      then show ?thesis by auto
    next
      case False
      with a have "entries st ip' = Some s'" by simp
      with assms obtain i where "i < drawn st" "sessionID s' = uuid i"
        unfolding drawnOnly_def by blast
      then show ?thesis by (auto intro: exI [of _ i])
    qed
  qed
next
  case False
  then obtain s where s: "entries st ip = Some s" "\<not> now - lastSeen s > window" by auto
  show ?thesis
    unfolding Process_within [OF s] drawnOnly_def
  proof (intro allI impI)
    fix ip' s'
    assume a: "entries (snd (sessionID s,
        st\<lparr>entries := (entries st)(ip \<mapsto> \<lparr>sessionID = sessionID s, lastSeen = now\<rparr>)\<rparr>)) ip'
        = Some s'"
    have "\<exists>i < drawn st. sessionID s' = uuid i"
    proof (cases "ip' = ip")
      case True
      with a have "sessionID s' = sessionID s" by auto
      with assms s(1) show ?thesis unfolding drawnOnly_def by auto
    next
      case False
      with a have "entries st ip' = Some s'" by simp
      with assms show ?thesis unfolding drawnOnly_def by blast
    qed
    then show "\<exists>i < drawn (snd (sessionID s,
        st\<lparr>entries := (entries st)(ip \<mapsto> \<lparr>sessionID = sessionID s, lastSeen = now\<rparr>)\<rparr>)).
        sessionID s' = uuid i" by simp
  qed
qed

lemma Process_new_unused:
  assumes "inj uuid" and "drawnOnly uuid st" and "entries st ip' = Some s'"
  shows "sessionID s' \<noteq> uuid (drawn st)"
proof -
  from assms(2,3) obtain i where i: "i < drawn st" "sessionID s' = uuid i"
    unfolding drawnOnly_def by blast
  from i(1) assms(1) have "uuid i \<noteq> uuid (drawn st)" by (auto dest: injD)
  with i(2) show ?thesis by simp
qed

lemma ProcessAll_within:
  "entries st ip = Some s \<Longrightarrow> withinWindow window (lastSeen s) nows \<Longrightarrow>
   fst (ProcessAll uuid window st ip nows) = replicate (length nows) (sessionID s)"
proof (induction nows arbitrary: st s)
  case Nil
  show ?case by simp
next
  case (Cons now nows)
  from Cons.prems(2) have w: "\<not> now - lastSeen s > window" "withinWindow window now nows"
    by simp_all
  let ?s' = "\<lparr>sessionID = sessionID s, lastSeen = now\<rparr>"
  let ?st' = "st\<lparr>entries := (entries st)(ip \<mapsto> ?s')\<rparr>"
  have step: "Process uuid window st ip now = (sessionID s, ?st')"
    by (rule Process_within [OF Cons.prems(1) w(1)])
  have e: "entries ?st' ip = Some ?s'" by simp
  have "withinWindow window (lastSeen ?s') nows" using w(2) by simp
  from Cons.IH [OF e this] have
    "fst (ProcessAll uuid window ?st' ip nows) = replicate (length nows) (sessionID s)"
    by simp
  then show ?case by (simp add: step case_prod_beta)
qed

lemma drawnOnly_emptyStore: "drawnOnly uuid emptyStore"
  by (simp add: drawnOnly_def emptyStore_def)

lemma inj_exampleUUID: "inj exampleUUID"
proof (rule injI)
  fix x y
  assume "exampleUUID x = exampleUUID y"
  then have "length (exampleUUID x) = length (exampleUUID y)" by simp
  then show "x = y" by (simp add: exampleUUID_def)
qed

text \<open>
  Claim C5. For a source address with an entry, a call within the inactivity window of
  \<open>lastSeen\<close> returns the identifier of the entry and sets \<open>lastSeen\<close> to \<open>now\<close>, and so
  does every call of a run of calls each within the window of the one before. A call for
  an address without an entry, or after the window has elapsed, returns a newly generated
  identifier and records it with \<open>lastSeen = now\<close>; as the generator never repeats an
  identifier, the new one differs from the previous one and from every identifier in
  the store or drawn before.
\<close>

theorem session_identifier_window:
  assumes "inj uuid" and "drawnOnly uuid st"
  shows
  "(\<forall>s. entries st ip = Some s \<and> \<not> now - lastSeen s > window \<longrightarrow>
       fst (Process uuid window st ip now) = sessionID s
       \<and> entries (snd (Process uuid window st ip now)) ip =
           Some \<lparr>sessionID = sessionID s, lastSeen = now\<rparr>)
   \<and> (\<forall>s nows. entries st ip = Some s \<and> withinWindow window (lastSeen s) nows \<longrightarrow>
       fst (ProcessAll uuid window st ip nows) = replicate (length nows) (sessionID s))
   \<and> (entries st ip = None \<or> (\<exists>s. entries st ip = Some s \<and> now - lastSeen s > window) \<longrightarrow>
       fst (Process uuid window st ip now) = uuid (drawn st)
       \<and> entries (snd (Process uuid window st ip now)) ip =
           Some \<lparr>sessionID = uuid (drawn st), lastSeen = now\<rparr>
       \<and> (\<forall>ip' s'. entries st ip' = Some s' \<longrightarrow>
             sessionID s' \<noteq> fst (Process uuid window st ip now))
       \<and> (\<forall>i < drawn st. uuid i \<noteq> fst (Process uuid window st ip now)))
   \<and> drawnOnly uuid (snd (Process uuid window st ip now))
   \<and> drawnOnly uuid emptyStore"
proof (intro conjI allI impI)
  fix s
  assume "entries st ip = Some s \<and> \<not> now - lastSeen s > window"
  then have h: "entries st ip = Some s" "\<not> now - lastSeen s > window" by simp_all
  show "fst (Process uuid window st ip now) = sessionID s"
    by (simp add: Process_within [OF h])
  show "entries (snd (Process uuid window st ip now)) ip =
           Some \<lparr>sessionID = sessionID s, lastSeen = now\<rparr>"
    by (simp add: Process_within [OF h])
next
  fix s nows
  assume "entries st ip = Some s \<and> withinWindow window (lastSeen s) nows"
  then show "fst (ProcessAll uuid window st ip nows) = replicate (length nows) (sessionID s)"
    by (simp add: ProcessAll_within)
next
  assume h: "entries st ip = None \<or> (\<exists>s. entries st ip = Some s \<and> now - lastSeen s > window)"
  show "fst (Process uuid window st ip now) = uuid (drawn st)"
    by (simp add: Process_new [OF h])
  show "entries (snd (Process uuid window st ip now)) ip =
           Some \<lparr>sessionID = uuid (drawn st), lastSeen = now\<rparr>"
    by (simp add: Process_new [OF h])
  show "\<And>ip' s'. entries st ip' = Some s' \<Longrightarrow>
             sessionID s' \<noteq> fst (Process uuid window st ip now)"
    using Process_new_unused [OF assms] by (simp add: Process_new [OF h])
  show "\<And>i. i < drawn st \<Longrightarrow> uuid i \<noteq> fst (Process uuid window st ip now)"
    using assms(1) by (auto simp: Process_new [OF h] dest: injD)
next
  show "drawnOnly uuid (snd (Process uuid window st ip now))"
    by (rule drawnOnly_Process [OF assms(2)])
  show "drawnOnly uuid emptyStore" by (rule drawnOnly_emptyStore)
qed

theorem session_identifier_window_witness:
  "fst (Process exampleUUID 30 exampleStore ''198.51.100.7'' 10) = ''s''
   \<and> fst (ProcessAll exampleUUID 30 exampleStore ''198.51.100.7'' [10, 35, 60]) =
       [''s'', ''s'', ''s'']
   \<and> fst (Process exampleUUID 30 exampleStore ''198.51.100.7'' 31) = ''sx''
   \<and> fst (Process exampleUUID 30 exampleStore ''203.0.113.9'' 5) = ''sx''"
proof -
  have d: "drawnOnly exampleUUID exampleStore"
    by (simp add: drawnOnly_def exampleStore_def exampleUUID_def)
  have e: "entries exampleStore ''198.51.100.7'' = Some \<lparr>sessionID = ''s'', lastSeen = 0\<rparr>"
    by (simp add: exampleStore_def)
  have n: "entries exampleStore ''203.0.113.9'' = None"
    by (simp add: exampleStore_def)
  have u1: "exampleUUID (drawn exampleStore) = ''sx''"
    by (simp add: exampleStore_def exampleUUID_def)
  have a: "fst (Process exampleUUID 30 exampleStore ''198.51.100.7'' 10) = ''s''"
    using session_identifier_window [OF inj_exampleUUID d, where ip = "''198.51.100.7''"
        and now = 10 and window = 30, THEN conjunct1, THEN spec,
        of "\<lparr>sessionID = ''s'', lastSeen = 0\<rparr>"] e
    by simp
  have b: "fst (ProcessAll exampleUUID 30 exampleStore ''198.51.100.7'' [10, 35, 60]) =
       [''s'', ''s'', ''s'']"
    using session_identifier_window [OF inj_exampleUUID d, where ip = "''198.51.100.7''"
        and window = 30, THEN conjunct2, THEN conjunct1, THEN spec, THEN spec,
        of "\<lparr>sessionID = ''s'', lastSeen = 0\<rparr>" "[10, 35, 60]"] e
    by simp
  have c: "fst (Process exampleUUID 30 exampleStore ''198.51.100.7'' 31) = ''sx''"
    using session_identifier_window [OF inj_exampleUUID d, where ip = "''198.51.100.7''"
        and now = 31 and window = 30, THEN conjunct2, THEN conjunct2, THEN conjunct1] e u1
    by simp
  have f: "fst (Process exampleUUID 30 exampleStore ''203.0.113.9'' 5) = ''sx''"
    using session_identifier_window [OF inj_exampleUUID d, where ip = "''203.0.113.9''"
        and now = 5 and window = 30, THEN conjunct2, THEN conjunct2, THEN conjunct1] n u1
    by simp
  from a b c f show ?thesis by (intro conjI)
qed

subsection \<open>The fields of an event\<close>

lemma flatten_other:
  "\<forall>kv \<in> set m. prefix @ fst kv \<noteq> k \<Longrightarrow> flatten prefix m flds k = flds k"
  unfolding flatten_def
  by (induction m arbitrary: flds) (auto simp: case_prod_beta)

lemma flatten_key:
  "distinct (map fst m) \<Longrightarrow> (k, v) \<in> set m \<Longrightarrow>
   flatten prefix m flds (prefix @ k) = Some (Str v)"
proof (induction m arbitrary: flds)
  case Nil
  then show ?case by simp
next
  case (Cons kv m)
  obtain k' v' where kv: "kv = (k', v')" by (cases kv)
  have unfold: "flatten prefix (kv # m) flds = flatten prefix m (flds(prefix @ k' \<mapsto> Str v'))"
    by (simp add: flatten_def kv)
  show ?case
  proof (cases "(k, v) \<in> set m")
    case True
    from Cons.prems(1) have "distinct (map fst m)" by simp
    from Cons.IH [OF this True] show ?thesis unfolding unfold .
  next
    case False
    with Cons.prems(2) have eq: "k' = k" "v' = v" by (simp_all add: kv)
    from Cons.prems(1) have "k \<notin> fst ` set m" by (simp add: kv eq)
    then have "\<forall>kv \<in> set m. prefix @ fst kv \<noteq> prefix @ k" by auto
    from flatten_other [OF this, of "flds(prefix @ k \<mapsto> Str v)"]
    show ?thesis unfolding unfold by (simp add: eq)
  qed
qed

lemma convertMap_keys: "fst ` set (convertMap hs) = set (headerKeys hs)"
  by (force simp: convertMap_def headerKeys_def case_prod_beta image_iff)

text \<open>
  A key that no request header is flattened to is read from the literal map of
  \<open>commonFields\<close>.
\<close>

lemma commonFields_lookup:
  assumes "\<forall>h \<in> set (headerKeys (Header r)). ''request.headers.'' @ h \<noteq> k"
  shows "fst (commonFields lib l r port :: (string \<rightharpoonup> 't fieldValue) \<times> 'ev effect list) k =
    [''src_ip'' \<mapsto> Str (fst (sourceAddr lib r)),
     ''hostname'' \<mapsto>
        Str (fst (snd (enrichment l (fst (sourceAddr lib r))
               :: string list \<times> string \<times> 'ev effect list))),
     ''src_port'' \<mapsto> Str (snd (sourceAddr lib r)),
     ''tags'' \<mapsto>
        Str (Join (fst (enrichment l (fst (sourceAddr lib r))
               :: string list \<times> string \<times> 'ev effect list)) '',''),
     ''sensorName'' \<mapsto> Str (sensorName lib),
     ''dest_port'' \<mapsto> Str port,
     ''session'' \<mapsto> Str (fst (Sessionizer l (fst (sourceAddr lib r)))),
     ''request.method'' \<mapsto> Str (Method r),
     ''request.protocol'' \<mapsto> Str (Proto r),
     ''request.requestURI'' \<mapsto> Str (RequestURI r),
     ''request.userAgent'' \<mapsto> Str (UserAgent r),
     ''request.body'' \<mapsto> Str (RBody r),
     ''request.bodySha256'' \<mapsto> Str (sha256Hex lib (RBody r)),
     ''request.headers.sorted'' \<mapsto> Str (Join (sort (headerKeys (Header r))) '',''),
     ''request.headers.sortedSha256'' \<mapsto>
        Str (sha256Hex lib (Join (sort (headerKeys (Header r))) '',''))] k"
proof -
  have "\<forall>kv \<in> set (convertMap (Header r)). ''request.headers.'' @ fst kv \<noteq> k"
    using assms convertMap_keys [of "Header r"] by (metis imageI)
  from flatten_other [OF this] show ?thesis
    by (simp only: commonFields_def Let_def case_prod_beta fst_conv snd_conv
        headersSortedSha256_def)
qed

lemma LogEvent_lookup:
  assumes "\<forall>kv \<in> set (Headers resp). ''response.headers.'' @ fst kv \<noteq> k"
    and "k \<noteq> ''response.body''" and "k \<noteq> ''response.metadata.generationSource''"
    and "k \<noteq> ''response.metadata.provider''" and "k \<noteq> ''response.metadata.model''"
    and "k \<noteq> ''response.metadata.temperature''"
  shows "Data (fst (LogEvent lib l r resp port source :: 't Entry \<times> 'ev effect list)) k =
    fst (commonFields lib l r port :: (string \<rightharpoonup> 't fieldValue) \<times> 'ev effect list) k"
  using assms(2-) flatten_other [OF assms(1)]
  by (simp add: LogEvent_def Let_def case_prod_beta)

lemma LogEvent_response:
  "Data (fst (LogEvent lib l r resp port source :: 't Entry \<times> 'ev effect list))
     ''response.body'' = Some (Str (Body resp))"
  "Data (fst (LogEvent lib l r resp port source :: 't Entry \<times> 'ev effect list))
     ''response.metadata.provider'' = Some (Str (Provider (LLMConfig l)))"
  "Data (fst (LogEvent lib l r resp port source :: 't Entry \<times> 'ev effect list))
     ''response.metadata.model'' = Some (Str (Model (LLMConfig l)))"
  "Data (fst (LogEvent lib l r resp port source :: 't Entry \<times> 'ev effect list))
     ''response.metadata.temperature'' = Some (Num (Temperature (LLMConfig l)))"
  "Level (fst (LogEvent lib l r resp port source :: 't Entry \<times> 'ev effect list)) = ''info''"
  "Message (fst (LogEvent lib l r resp port source :: 't Entry \<times> 'ev effect list)) =
     ''successfulResponse''"
  by (simp_all add: LogEvent_def Let_def case_prod_beta)

lemma LogEvent_header:
  assumes "distinct (map fst (Headers resp))" and "(k, v) \<in> set (Headers resp)"
  shows "Data (fst (LogEvent lib l r resp port source :: 't Entry \<times> 'ev effect list))
     (''response.headers.'' @ k) = Some (Str v)"
  using flatten_key [OF assms, of "''response.headers.''"]
  by (simp add: LogEvent_def Let_def case_prod_beta)

lemma errorFields_other:
  "k \<noteq> ''type'' \<Longrightarrow> k \<noteq> ''msg'' \<Longrightarrow> k \<noteq> ''invalidResponse'' \<Longrightarrow>
   errorFields errMsg resp k = None"
  by (simp add: errorFields_def Let_def case_prod_beta)

lemma errorFields_dom:
  "errorFields errMsg resp ''type'' \<noteq> None"
  "errorFields errMsg resp ''msg'' \<noteq> None"
  "errorFields errMsg resp ''invalidResponse'' = Some resp"
  by (simp_all add: errorFields_def Let_def case_prod_beta)

lemma LogError_lookup:
  assumes "k \<noteq> ''type''" and "k \<noteq> ''msg''" and "k \<noteq> ''invalidResponse''"
    and "k \<noteq> ''response.metadata.provider''" and "k \<noteq> ''response.metadata.model''"
    and "k \<noteq> ''response.metadata.temperature''"
  shows "Data (fst (LogError lib l r resp port errMsg :: 't Entry \<times> 'ev effect list)) k =
    fst (commonFields lib l r port :: (string \<rightharpoonup> 't fieldValue) \<times> 'ev effect list) k"
  using assms(4-) errorFields_other [OF assms(1-3), of errMsg resp]
  by (simp add: LogError_def Let_def case_prod_beta map_add_def)

lemma LogError_error:
  "Data (fst (LogError lib l r resp port errMsg :: 't Entry \<times> 'ev effect list)) ''type'' =
     map_option Str (errorFields errMsg resp ''type'')"
  "Data (fst (LogError lib l r resp port errMsg :: 't Entry \<times> 'ev effect list)) ''msg'' =
     map_option Str (errorFields errMsg resp ''msg'')"
  "Data (fst (LogError lib l r resp port errMsg :: 't Entry \<times> 'ev effect list))
     ''invalidResponse'' = Some (Str resp)"
  "Data (fst (LogError lib l r resp port errMsg :: 't Entry \<times> 'ev effect list))
     ''response.metadata.provider'' = Some (Str (Provider (LLMConfig l)))"
  "Data (fst (LogError lib l r resp port errMsg :: 't Entry \<times> 'ev effect list))
     ''response.metadata.model'' = Some (Str (Model (LLMConfig l)))"
  "Data (fst (LogError lib l r resp port errMsg :: 't Entry \<times> 'ev effect list))
     ''response.metadata.temperature'' = Some (Num (Temperature (LLMConfig l)))"
  "Level (fst (LogError lib l r resp port errMsg :: 't Entry \<times> 'ev effect list)) = ''error''"
  using errorFields_dom [of errMsg resp]
  by (auto simp: LogError_def Let_def case_prod_beta map_add_def split: option.splits)

text \<open>
  The parts of \<open>commonFields\<close> in terms of what the collaborators and the library give.
\<close>

lemma sourceAddr_eq:
  "fst (sourceAddr lib r) =
     (case netSplitHostPort lib (RemoteAddr r) of Inl err \<Rightarrow> RemoteAddr r | Inr (h, p) \<Rightarrow> h)"
  "snd (sourceAddr lib r) =
     (case netSplitHostPort lib (RemoteAddr r) of Inl err \<Rightarrow> [] | Inr (h, p) \<Rightarrow> p)"
  by (simp_all add: sourceAddr_def split: sum.splits prod.splits)

lemma enrichment_tags:
  "Join (fst (enrichment l ip :: string list \<times> string \<times> 'ev effect list)) '','' =
     (case EnrichCache l ip of Inr (Some info) \<Rightarrow> KnownScanner info | _ \<Rightarrow> [])"
  by (simp add: enrichment_def split: sum.splits option.splits)

lemma enrichment_host:
  "fst (snd (enrichment l ip :: string list \<times> string \<times> 'ev effect list)) =
     (case EnrichCache l ip of Inr (Some info) \<Rightarrow> Host info | _ \<Rightarrow> [])"
  by (simp add: enrichment_def split: sum.splits option.splits)

lemma sensorName_eq:
  "sensorName lib = (case osHostname lib of Inr h \<Rightarrow> h | Inl err \<Rightarrow> uuidNewString lib)"
  by (simp add: sensorName_def getHostname_def split: sum.splits)

lemma common_entries:
  fixes lib :: Lib and l :: "'t Logger" and r :: Request and port :: string
  assumes "''sorted'' \<notin> fst ` set (Header r)"
    and "''sortedSha256'' \<notin> fst ` set (Header r)"
  defines "F \<equiv> fst (commonFields lib l r port :: (string \<rightharpoonup> 't fieldValue) \<times> 'ev effect list)"
    and "srcIP \<equiv> (case netSplitHostPort lib (RemoteAddr r) of Inl err \<Rightarrow> RemoteAddr r | Inr (h, p) \<Rightarrow> h)"
    and "srcPort \<equiv>
      (case netSplitHostPort lib (RemoteAddr r) of Inl err \<Rightarrow> [] | Inr (h, p) \<Rightarrow> p)"
  shows "F ''src_ip'' = Some (Str srcIP)"
    and "F ''src_port'' = Some (Str srcPort)"
    and "F ''dest_port'' = Some (Str port)"
    and "F ''session'' = Some (Str (fst (Sessionizer l srcIP)))"
    and "F ''tags'' = Some (Str (case EnrichCache l srcIP of Inr (Some info) \<Rightarrow> KnownScanner info | _ \<Rightarrow> []))"
    and "F ''hostname'' = Some (Str (case EnrichCache l srcIP of Inr (Some info) \<Rightarrow> Host info | _ \<Rightarrow> []))"
    and "F ''sensorName'' = Some (Str (case osHostname lib of Inr h \<Rightarrow> h | Inl err \<Rightarrow> uuidNewString lib))"
    and "F ''request.method'' = Some (Str (Method r))"
    and "F ''request.protocol'' = Some (Str (Proto r))"
    and "F ''request.requestURI'' = Some (Str (RequestURI r))"
    and "F ''request.userAgent'' = Some (Str (case map_of (Header r) ''User-Agent'' of Some (v # vs) \<Rightarrow> v | _ \<Rightarrow> []))"
    and "F ''request.body'' = Some (Str (RBody r))"
    and "F ''request.bodySha256'' = Some (Str (sha256Hex lib (RBody r)))"
    and "F ''request.headers.sorted'' = Some (Str (Join (sort (map fst (Header r))) '',''))"
    and "F ''request.headers.sortedSha256'' = Some (Str (sha256Hex lib (Join (sort (map fst (Header r))) '','')))"
proof -
  have s1: "\<forall>h \<in> set (headerKeys (Header r)). ''request.headers.'' @ h \<noteq> ''request.headers.sorted''"
    using assms(1) by (force simp: headerKeys_def)
  have s2: "\<forall>h \<in> set (headerKeys (Header r)).
      ''request.headers.'' @ h \<noteq> ''request.headers.sortedSha256''"
    using assms(2) by (force simp: headerKeys_def)
  note eqs = sourceAddr_eq enrichment_tags enrichment_host sensorName_eq UserAgent_def
    headerKeys_def srcIP_def srcPort_def
  show "F ''src_ip'' = Some (Str srcIP)"
    unfolding F_def by (subst commonFields_lookup) (simp_all add: eqs)
  show "F ''src_port'' = Some (Str srcPort)"
    unfolding F_def by (subst commonFields_lookup) (simp_all add: eqs)
  show "F ''dest_port'' = Some (Str port)"
    unfolding F_def by (subst commonFields_lookup) (simp_all add: eqs)
  show "F ''session'' = Some (Str (fst (Sessionizer l srcIP)))"
    unfolding F_def by (subst commonFields_lookup) (simp_all add: eqs)
  show "F ''tags'' = Some (Str (case EnrichCache l srcIP of Inr (Some info) \<Rightarrow> KnownScanner info | _ \<Rightarrow> []))"
    unfolding F_def by (subst commonFields_lookup) (simp_all add: eqs)
  show "F ''hostname'' = Some (Str (case EnrichCache l srcIP of Inr (Some info) \<Rightarrow> Host info | _ \<Rightarrow> []))"
    unfolding F_def by (subst commonFields_lookup) (simp_all add: eqs)
  show "F ''sensorName'' = Some (Str (case osHostname lib of Inr h \<Rightarrow> h | Inl err \<Rightarrow> uuidNewString lib))"
    unfolding F_def by (subst commonFields_lookup) (simp_all add: eqs)
  show "F ''request.method'' = Some (Str (Method r))"
    unfolding F_def by (subst commonFields_lookup) (simp_all add: eqs)
  show "F ''request.protocol'' = Some (Str (Proto r))"
    unfolding F_def by (subst commonFields_lookup) (simp_all add: eqs)
  show "F ''request.requestURI'' = Some (Str (RequestURI r))"
    unfolding F_def by (subst commonFields_lookup) (simp_all add: eqs)
  show "F ''request.userAgent'' = Some (Str (case map_of (Header r) ''User-Agent'' of Some (v # vs) \<Rightarrow> v | _ \<Rightarrow> []))"
    unfolding F_def by (subst commonFields_lookup) (simp_all add: eqs)
  show "F ''request.body'' = Some (Str (RBody r))"
    unfolding F_def by (subst commonFields_lookup) (simp_all add: eqs)
  show "F ''request.bodySha256'' = Some (Str (sha256Hex lib (RBody r)))"
    unfolding F_def by (subst commonFields_lookup) (simp_all add: eqs)
  show "F ''request.headers.sorted'' = Some (Str (Join (sort (map fst (Header r))) '',''))"
    unfolding F_def by (subst commonFields_lookup [OF s1]) (simp_all add: eqs)
  show "F ''request.headers.sortedSha256'' = Some (Str (sha256Hex lib (Join (sort (map fst (Header r))) '','')))"
    unfolding F_def by (subst commonFields_lookup [OF s2]) (simp_all add: eqs)
qed

lemma commonFields_header:
  assumes "distinct (map fst (Header r))" and "kv \<in> set (Header r)"
  shows "fst (commonFields lib l r port :: (string \<rightharpoonup> 't fieldValue) \<times> 'ev effect list)
     (''request.headers.'' @ fst kv) = Some (Str (Join (snd kv) '', ''))"
proof -
  have d: "distinct (map fst (convertMap (Header r)))"
    using assms(1) by (simp add: convertMap_def case_prod_beta comp_def)
  have m: "(fst kv, Join (snd kv) '', '') \<in> set (convertMap (Header r))"
    using assms(2) by (force simp: convertMap_def case_prod_beta image_iff)
  from flatten_key [OF d m, of "''request.headers.''"] show ?thesis
    by (simp add: commonFields_def Let_def case_prod_beta)
qed


lemma New_opened:
  "osOpenFile lib file = None \<Longrightarrow>
   New lib file cfg eCache sz =
     Inr \<lparr>EnrichCache = eCache, Sessionizer = sz,
          EventLogger =
            \<lparr>Formatter =
               \<lparr>TimestampFormat = ''2006-01-02T15:04:05Z07:00'',
                FieldMap = [(''time'', ''timestamp'')]\<rparr>,
             Out = \<lparr>Name = file, Flag = [''O_APPEND'', ''O_CREATE'', ''O_WRONLY''],
                    Perm = 420\<rparr>\<rparr>,
          LLMConfig = cfg\<rparr>"
  by (simp add: New_def Let_def RFC3339_def FieldKeyTime_def)

lemma New_refused:
  "osOpenFile lib file = Some err \<Longrightarrow> New lib file cfg eCache sz = Inl err"
  by (simp add: New_def Let_def)

text \<open>
  Claim C8. The fields of an entry form one flat map from dot-delimited keys to scalar
  values. The fields built by \<open>commonFields\<close>, and with them the data of a success
  entry and of a failure entry, hold: the source address and port, which are the two
  parts of the remote address (the whole remote address and the empty string when it
  does not split); the destination port; the session identifier of the source address;
  under \<open>tags\<close> the scanner name that the enrichment lookup of the source address gives
  (the empty string when the lookup fails or knows nothing) and under \<open>hostname\<close> its
  host name; the sensor name (the host name of the machine, or a fresh UUID); the
  method, protocol, URI, user agent and body of the request; the SHA-256 digest of the
  body; the sorted, comma-separated list of the header names and its digest; and every
  request header under \<open>request.headers.\<close> followed by its name, its values joined
  by a comma and a space. A success entry is logged at level \<open>info\<close> with the message
  \<open>successfulResponse\<close>, and holds in addition the body and every header of the
  response, the source of the response and the provider, model and temperature of the
  generation backend. A failure entry is logged at level \<open>error\<close> and holds the three
  backend fields and the raw response next to the error fields. When the event log file
  opens, \<open>New\<close> returns a logger that appends to that file through a JSON formatter, one
  object per line, whose time field is named \<open>timestamp\<close> and formatted as RFC 3339;
  when it does not open, \<open>New\<close> returns the error. The names of the request headers are
  the keys of a map in the canonical form of \<open>net/http\<close>: they are distinct and none of
  them is \<open>sorted\<close> or \<open>sortedSha256\<close>; the headers of a response, keys of a map as
  well, are distinct.
\<close>

theorem event_record_fields:
  fixes lib :: Lib and l :: "'t Logger" and r :: Request and port :: string
    and resp :: HTTPResponse and source raw errMsg logFile :: string
  assumes "''sorted'' \<notin> fst ` set (Header r)"
    and "''sortedSha256'' \<notin> fst ` set (Header r)"
    and "distinct (map fst (Header r))"
    and "distinct (map fst (Headers resp))"
  defines "common \<equiv> fst (commonFields lib l r port :: (string \<rightharpoonup> 't fieldValue) \<times> 'ev effect list)"
    and "ok \<equiv> fst (LogEvent lib l r resp port source :: 't Entry \<times> 'ev effect list)"
    and "ko \<equiv> fst (LogError lib l r raw port errMsg :: 't Entry \<times> 'ev effect list)"
    and "srcIP \<equiv>
      (case netSplitHostPort lib (RemoteAddr r) of Inl err \<Rightarrow> RemoteAddr r | Inr (h, p) \<Rightarrow> h)"
    and "srcPort \<equiv>
      (case netSplitHostPort lib (RemoteAddr r) of Inl err \<Rightarrow> [] | Inr (h, p) \<Rightarrow> p)"
  shows
  "(\<forall>F \<in> {common, Data ok, Data ko}.
      F ''src_ip'' = Some (Str srcIP)
      \<and> F ''src_port'' = Some (Str srcPort)
      \<and> F ''dest_port'' = Some (Str port)
      \<and> F ''session'' = Some (Str (fst (Sessionizer l srcIP)))
      \<and> F ''tags'' = Some (Str (case EnrichCache l srcIP of Inr (Some info) \<Rightarrow> KnownScanner info | _ \<Rightarrow> []))
      \<and> F ''hostname'' = Some (Str (case EnrichCache l srcIP of Inr (Some info) \<Rightarrow> Host info | _ \<Rightarrow> []))
      \<and> F ''sensorName'' = Some (Str (case osHostname lib of Inr h \<Rightarrow> h | Inl err \<Rightarrow> uuidNewString lib))
      \<and> F ''request.method'' = Some (Str (Method r))
      \<and> F ''request.protocol'' = Some (Str (Proto r))
      \<and> F ''request.requestURI'' = Some (Str (RequestURI r))
      \<and> F ''request.userAgent'' = Some (Str (case map_of (Header r) ''User-Agent'' of Some (v # vs) \<Rightarrow> v | _ \<Rightarrow> []))
      \<and> F ''request.body'' = Some (Str (RBody r))
      \<and> F ''request.bodySha256'' = Some (Str (sha256Hex lib (RBody r)))
      \<and> F ''request.headers.sorted'' = Some (Str (Join (sort (map fst (Header r))) '',''))
      \<and> F ''request.headers.sortedSha256'' = Some (Str (sha256Hex lib (Join (sort (map fst (Header r))) '','')))
      \<and> (\<forall>kv \<in> set (Header r).
          F (''request.headers.'' @ fst kv) = Some (Str (Join (snd kv) '', ''))))
   \<and> Level ok = ''info'' \<and> Message ok = ''successfulResponse''
   \<and> Data ok ''response.body'' = Some (Str (Body resp))
   \<and> (\<forall>kv \<in> set (Headers resp).
        Data ok (''response.headers.'' @ fst kv) = Some (Str (snd kv)))
   \<and> Data ok ''response.metadata.generationSource'' = Some (Str source)
   \<and> Data ok ''response.metadata.provider'' = Some (Str (Provider (LLMConfig l)))
   \<and> Data ok ''response.metadata.model'' = Some (Str (Model (LLMConfig l)))
   \<and> Data ok ''response.metadata.temperature'' = Some (Num (Temperature (LLMConfig l)))
   \<and> Level ko = ''error''
   \<and> Message ko = ''failedResponse: returned 500 internal server error''
   \<and> Data ko ''response.metadata.provider'' = Some (Str (Provider (LLMConfig l)))
   \<and> Data ko ''response.metadata.model'' = Some (Str (Model (LLMConfig l)))
   \<and> Data ko ''response.metadata.temperature'' = Some (Num (Temperature (LLMConfig l)))
   \<and> Data ko ''invalidResponse'' = Some (Str raw)
   \<and> (osOpenFile lib logFile = None \<longrightarrow>
        (\<exists>lg. New lib logFile (LLMConfig l) (EnrichCache l) (Sessionizer l) = Inr lg
           \<and> TimestampFormat (Formatter (EventLogger lg)) = ''2006-01-02T15:04:05Z07:00''
           \<and> FieldMap (Formatter (EventLogger lg)) = [(''time'', ''timestamp'')]
           \<and> Out (EventLogger lg) =
               \<lparr>Name = logFile, Flag = [''O_APPEND'', ''O_CREATE'', ''O_WRONLY''], Perm = 420\<rparr>
           \<and> LLMConfig lg = LLMConfig l \<and> EnrichCache lg = EnrichCache l
           \<and> Sessionizer lg = Sessionizer l))
   \<and> (\<forall>err. osOpenFile lib logFile = Some err \<longrightarrow>
        New lib logFile (LLMConfig l) (EnrichCache l) (Sessionizer l) = Inl err)"
proof -
  note c = common_entries [OF assms(1,2), of lib l port, where 'ev = 'ev,
      folded common_def srcIP_def srcPort_def]
  have ch: "\<forall>kv \<in> set (Header r).
      common (''request.headers.'' @ fst kv) = Some (Str (Join (snd kv) '', ''))"
    unfolding common_def using commonFields_header [OF assms(3)] by blast
  have okc: "\<And>k. \<forall>kv \<in> set (Headers resp). ''response.headers.'' @ fst kv \<noteq> k \<Longrightarrow>
      k \<noteq> ''response.body'' \<Longrightarrow> k \<noteq> ''response.metadata.generationSource'' \<Longrightarrow>
      k \<noteq> ''response.metadata.provider'' \<Longrightarrow> k \<noteq> ''response.metadata.model'' \<Longrightarrow>
      k \<noteq> ''response.metadata.temperature'' \<Longrightarrow> Data ok k = common k"
    unfolding ok_def common_def by (rule LogEvent_lookup)
  have koc: "\<And>k. k \<noteq> ''type'' \<Longrightarrow> k \<noteq> ''msg'' \<Longrightarrow> k \<noteq> ''invalidResponse'' \<Longrightarrow>
      k \<noteq> ''response.metadata.provider'' \<Longrightarrow> k \<noteq> ''response.metadata.model'' \<Longrightarrow>
      k \<noteq> ''response.metadata.temperature'' \<Longrightarrow> Data ko k = common k"
    unfolding ko_def common_def by (rule LogError_lookup)
  have okh: "\<forall>kv \<in> set (Header r).
      Data ok (''request.headers.'' @ fst kv) = Some (Str (Join (snd kv) '', ''))"
  proof
    fix kv
    assume kv: "kv \<in> set (Header r)"
    have "Data ok (''request.headers.'' @ fst kv) = common (''request.headers.'' @ fst kv)"
      by (rule okc) simp_all
    with ch kv show "Data ok (''request.headers.'' @ fst kv) = Some (Str (Join (snd kv) '', ''))"
      by simp
  qed
  have koh: "\<forall>kv \<in> set (Header r).
      Data ko (''request.headers.'' @ fst kv) = Some (Str (Join (snd kv) '', ''))"
  proof
    fix kv
    assume kv: "kv \<in> set (Header r)"
    have "Data ko (''request.headers.'' @ fst kv) = common (''request.headers.'' @ fst kv)"
      by (rule koc) simp_all
    with ch kv show "Data ko (''request.headers.'' @ fst kv) = Some (Str (Join (snd kv) '', ''))"
      by simp
  qed
  have all: "\<forall>F \<in> {common, Data ok, Data ko}.
      F ''src_ip'' = Some (Str srcIP)
      \<and> F ''src_port'' = Some (Str srcPort)
      \<and> F ''dest_port'' = Some (Str port)
      \<and> F ''session'' = Some (Str (fst (Sessionizer l srcIP)))
      \<and> F ''tags'' = Some (Str (case EnrichCache l srcIP of Inr (Some info) \<Rightarrow> KnownScanner info | _ \<Rightarrow> []))
      \<and> F ''hostname'' = Some (Str (case EnrichCache l srcIP of Inr (Some info) \<Rightarrow> Host info | _ \<Rightarrow> []))
      \<and> F ''sensorName'' = Some (Str (case osHostname lib of Inr h \<Rightarrow> h | Inl err \<Rightarrow> uuidNewString lib))
      \<and> F ''request.method'' = Some (Str (Method r))
      \<and> F ''request.protocol'' = Some (Str (Proto r))
      \<and> F ''request.requestURI'' = Some (Str (RequestURI r))
      \<and> F ''request.userAgent'' = Some (Str (case map_of (Header r) ''User-Agent'' of Some (v # vs) \<Rightarrow> v | _ \<Rightarrow> []))
      \<and> F ''request.body'' = Some (Str (RBody r))
      \<and> F ''request.bodySha256'' = Some (Str (sha256Hex lib (RBody r)))
      \<and> F ''request.headers.sorted'' = Some (Str (Join (sort (map fst (Header r))) '',''))
      \<and> F ''request.headers.sortedSha256'' = Some (Str (sha256Hex lib (Join (sort (map fst (Header r))) '','')))
      \<and> (\<forall>kv \<in> set (Header r).
          F (''request.headers.'' @ fst kv) = Some (Str (Join (snd kv) '', '')))"
  proof (intro ballI)
    fix F
    assume "F \<in> {common, Data ok, Data ko}"
    then consider "F = common" | "F = Data ok" | "F = Data ko" by auto
    then show "F ''src_ip'' = Some (Str srcIP)
      \<and> F ''src_port'' = Some (Str srcPort)
      \<and> F ''dest_port'' = Some (Str port)
      \<and> F ''session'' = Some (Str (fst (Sessionizer l srcIP)))
      \<and> F ''tags'' = Some (Str (case EnrichCache l srcIP of Inr (Some info) \<Rightarrow> KnownScanner info | _ \<Rightarrow> []))
      \<and> F ''hostname'' = Some (Str (case EnrichCache l srcIP of Inr (Some info) \<Rightarrow> Host info | _ \<Rightarrow> []))
      \<and> F ''sensorName'' = Some (Str (case osHostname lib of Inr h \<Rightarrow> h | Inl err \<Rightarrow> uuidNewString lib))
      \<and> F ''request.method'' = Some (Str (Method r))
      \<and> F ''request.protocol'' = Some (Str (Proto r))
      \<and> F ''request.requestURI'' = Some (Str (RequestURI r))
      \<and> F ''request.userAgent'' = Some (Str (case map_of (Header r) ''User-Agent'' of Some (v # vs) \<Rightarrow> v | _ \<Rightarrow> []))
      \<and> F ''request.body'' = Some (Str (RBody r))
      \<and> F ''request.bodySha256'' = Some (Str (sha256Hex lib (RBody r)))
      \<and> F ''request.headers.sorted'' = Some (Str (Join (sort (map fst (Header r))) '',''))
      \<and> F ''request.headers.sortedSha256'' = Some (Str (sha256Hex lib (Join (sort (map fst (Header r))) '','')))
      \<and> (\<forall>kv \<in> set (Header r).
          F (''request.headers.'' @ fst kv) = Some (Str (Join (snd kv) '', '')))"
    proof cases
      case 1
      show ?thesis unfolding 1 by (intro conjI) (rule c ch)+
    next
      case 2
      show ?thesis unfolding 2
        by (intro conjI; (rule okh)?; (subst okc; (simp; fail)?; rule c)?)
    next
      case 3
      show ?thesis unfolding 3
        by (intro conjI; (rule koh)?; (subst koc; (simp; fail)?; rule c)?)
    qed
  qed
  have hdrs: "\<forall>kv \<in> set (Headers resp).
        Data ok (''response.headers.'' @ fst kv) = Some (Str (snd kv))"
  proof
    fix kv
    assume "kv \<in> set (Headers resp)"
    then have "(fst kv, snd kv) \<in> set (Headers resp)" by simp
    from LogEvent_header [OF assms(4) this] show
      "Data ok (''response.headers.'' @ fst kv) = Some (Str (snd kv))"
      unfolding ok_def .
  qed
  have src: "Data ok ''response.metadata.generationSource'' = Some (Str source)"
    unfolding ok_def by (simp add: LogEvent_def Let_def case_prod_beta)
  have msg: "Message ko = ''failedResponse: returned 500 internal server error''"
    unfolding ko_def by (simp add: LogError_def Let_def case_prod_beta)
  have opened: "osOpenFile lib logFile = None \<longrightarrow>
        (\<exists>lg. New lib logFile (LLMConfig l) (EnrichCache l) (Sessionizer l) = Inr lg
           \<and> TimestampFormat (Formatter (EventLogger lg)) = ''2006-01-02T15:04:05Z07:00''
           \<and> FieldMap (Formatter (EventLogger lg)) = [(''time'', ''timestamp'')]
           \<and> Out (EventLogger lg) =
               \<lparr>Name = logFile, Flag = [''O_APPEND'', ''O_CREATE'', ''O_WRONLY''], Perm = 420\<rparr>
           \<and> LLMConfig lg = LLMConfig l \<and> EnrichCache lg = EnrichCache l
           \<and> Sessionizer lg = Sessionizer l)"
    by (intro impI, subst New_opened, assumption) simp
  have refused: "\<forall>err. osOpenFile lib logFile = Some err \<longrightarrow>
        New lib logFile (LLMConfig l) (EnrichCache l) (Sessionizer l) = Inl err"
    by (intro allI impI) (rule New_refused)
  show ?thesis
    using all hdrs src msg opened refused
      LogEvent_response [of lib l r resp port source, where 'ev = 'ev]
      LogError_error(3-7) [of lib l r raw port errMsg, where 'ev = 'ev]
    unfolding ok_def ko_def by (intro conjI) (assumption | simp)+
qed

theorem event_record_fields_witness:
  "Data (fst (LogEvent exampleLib exampleLogger exampleRequest exampleResponse ''80'' ''llm''
       :: nat Entry \<times> unit effect list)) ''src_ip'' = Some (Str ''198.51.100.7'')
   \<and> Data (fst (LogEvent exampleLib exampleLogger exampleRequest exampleResponse ''80'' ''llm''
       :: nat Entry \<times> unit effect list)) ''src_port'' = Some (Str ''40000'')
   \<and> Data (fst (LogEvent exampleLib exampleLogger exampleRequest exampleResponse ''80'' ''llm''
       :: nat Entry \<times> unit effect list)) ''tags'' = Some (Str ''shodan'')
   \<and> Data (fst (LogEvent exampleLib exampleLogger exampleRequest exampleResponse ''80'' ''llm''
       :: nat Entry \<times> unit effect list)) ''hostname'' = Some (Str ''scanner.example'')
   \<and> Data (fst (LogEvent exampleLib exampleLogger exampleRequest exampleResponse ''80'' ''llm''
       :: nat Entry \<times> unit effect list)) ''sensorName'' = Some (Str ''sensor1'')
   \<and> Data (fst (LogEvent exampleLib exampleLogger exampleRequest exampleResponse ''80'' ''llm''
       :: nat Entry \<times> unit effect list)) ''request.userAgent'' = Some (Str ''curl/8.0'')
   \<and> Data (fst (LogEvent exampleLib exampleLogger exampleRequest exampleResponse ''80'' ''llm''
       :: nat Entry \<times> unit effect list)) ''request.headers.sorted'' =
     Some (Str ''Accept,User-Agent'')
   \<and> Data (fst (LogEvent exampleLib exampleLogger exampleRequest exampleResponse ''80'' ''llm''
       :: nat Entry \<times> unit effect list)) ''request.bodySha256'' = Some (Str ''h()'')
   \<and> Data (fst (LogEvent exampleLib exampleLogger exampleRequest exampleResponse ''80'' ''llm''
       :: nat Entry \<times> unit effect list)) ''request.headers.Accept'' = Some (Str ''*/*'')
   \<and> Data (fst (LogEvent exampleLib exampleLogger exampleRequest exampleResponse ''80'' ''llm''
       :: nat Entry \<times> unit effect list)) ''response.headers.Server'' =
     Some (Str ''Apache/2.4.38'')
   \<and> Data (fst (LogError exampleLib exampleLogger exampleRequest ''junk'' ''80''
       ''invalidJSONResponse: bad'' :: nat Entry \<times> unit effect list)) ''src_ip'' =
     Some (Str ''198.51.100.7'')
   \<and> Data (fst (LogError exampleLib exampleLogger exampleRequest ''junk'' ''80''
       ''invalidJSONResponse: bad'' :: nat Entry \<times> unit effect list)) ''tags'' =
     Some (Str ''shodan'')
   \<and> New exampleLib ''event_log.json'' (LLMConfig exampleLogger) (EnrichCache exampleLogger)
       (Sessionizer exampleLogger) = Inr exampleLogger"
proof -
  let ?ok = "fst (LogEvent exampleLib exampleLogger exampleRequest exampleResponse ''80'' ''llm''
       :: nat Entry \<times> unit effect list)"
  let ?ko = "fst (LogError exampleLib exampleLogger exampleRequest ''junk'' ''80''
       ''invalidJSONResponse: bad'' :: nat Entry \<times> unit effect list)"
  let ?common = "fst (commonFields exampleLib exampleLogger exampleRequest ''80''
       :: (string \<rightharpoonup> nat fieldValue) \<times> unit effect list)"
  have hs: "Header exampleRequest = [(''User-Agent'', [''curl/8.0'']), (''Accept'', [''*/*''])]"
    by (simp add: exampleRequest_def)
  have n1: "''sorted'' \<notin> fst ` set (Header exampleRequest)"
    unfolding hs by simp
  have n2: "''sortedSha256'' \<notin> fst ` set (Header exampleRequest)"
    unfolding hs by simp
  have d1: "distinct (map fst (Header exampleRequest))"
    unfolding hs by simp
  have d2: "distinct (map fst (Headers exampleResponse))"
    by (simp add: exampleResponse_def)
  note main = event_record_fields [where lib = exampleLib and l = exampleLogger
      and r = exampleRequest and resp = exampleResponse and port = "''80''"
      and source = "''llm''" and raw = "''junk''" and errMsg = "''invalidJSONResponse: bad''"
      and logFile = "''event_log.json''" and 'ev = unit, OF n1 n2 d1 d2]
  have e0: "netSplitHostPort exampleLib (RemoteAddr exampleRequest) =
      Inr (''198.51.100.7'', ''40000'')"
    by code_simp
  have e1: "Join (sort (map fst (Header exampleRequest))) '','' = ''Accept,User-Agent''"
    by code_simp
  have e2: "sha256Hex exampleLib (RBody exampleRequest) = ''h()''"
    by (simp add: exampleLib_def exampleRequest_def)
  have e3: "EnrichCache exampleLogger ''198.51.100.7'' =
      Inr (Some \<lparr>KnownScanner = ''shodan'', Host = ''scanner.example''\<rparr>)"
    by (simp add: exampleLogger_def)
  have e4: "osHostname exampleLib = Inr ''sensor1''"
    by (simp add: exampleLib_def)
  have e5: "map_of (Header exampleRequest) ''User-Agent'' = Some [''curl/8.0'']"
    unfolding hs by simp
  have e6: "osOpenFile exampleLib ''event_log.json'' = None"
    by (simp add: exampleLib_def)
  have mok: "Data ?ok \<in> {?common, Data ?ok, Data ?ko}" by simp
  have mko: "Data ?ko \<in> {?common, Data ?ok, Data ?ko}" by simp
  note fok = main [THEN conjunct1, THEN bspec, OF mok, unfolded e0 sum.case prod.case]
  note fko = main [THEN conjunct1, THEN bspec, OF mko, unfolded e0 sum.case prod.case]
  have a: "Data ?ok ''src_ip'' = Some (Str ''198.51.100.7'')"
    using fok by (elim conjE)
  have b: "Data ?ok ''src_port'' = Some (Str ''40000'')"
    using fok by (elim conjE)
  have c: "Data ?ok ''tags'' = Some (Str ''shodan'')"
    using fok unfolding e3 by (elim conjE) simp
  have d: "Data ?ok ''hostname'' = Some (Str ''scanner.example'')"
    using fok unfolding e3 by (elim conjE) simp
  have e: "Data ?ok ''sensorName'' = Some (Str ''sensor1'')"
    using fok unfolding e4 by (elim conjE) simp
  have f: "Data ?ok ''request.userAgent'' = Some (Str ''curl/8.0'')"
    using fok unfolding e5 by (elim conjE) simp
  have g: "Data ?ok ''request.headers.sorted'' = Some (Str ''Accept,User-Agent'')"
    using fok unfolding e1 by (elim conjE)
  have h: "Data ?ok ''request.bodySha256'' = Some (Str ''h()'')"
    using fok unfolding e2 by (elim conjE)
  have acc: "(''Accept'', [''*/*'']) \<in> set (Header exampleRequest)"
    unfolding hs by simp
  have j: "Join [''*/*''] '', '' = ''*/*''"
    by code_simp
  have fokh: "\<forall>kv \<in> set (Header exampleRequest).
      Data ?ok (''request.headers.'' @ fst kv) = Some (Str (Join (snd kv) '', ''))"
    using fok by (elim conjE)
  from fokh [THEN bspec, OF acc]
  have i: "Data ?ok ''request.headers.Accept'' = Some (Str ''*/*'')"
    unfolding fst_conv snd_conv j by simp
  have srv: "(''Server'', ''Apache/2.4.38'') \<in> set (Headers exampleResponse)"
    by (simp add: exampleResponse_def)
  from main [THEN conjunct2, THEN conjunct2, THEN conjunct2, THEN conjunct2, THEN conjunct1,
      THEN bspec, OF srv]
  have k: "Data ?ok ''response.headers.Server'' = Some (Str ''Apache/2.4.38'')"
    by simp
  have m: "Data ?ko ''src_ip'' = Some (Str ''198.51.100.7'')"
    using fko by (elim conjE)
  have n: "Data ?ko ''tags'' = Some (Str ''shodan'')"
    using fko unfolding e3 by (elim conjE) simp
  note tl = main [THEN conjunct2, THEN conjunct2, THEN conjunct2, THEN conjunct2,
      THEN conjunct2, THEN conjunct2, THEN conjunct2, THEN conjunct2, THEN conjunct2,
      THEN conjunct2, THEN conjunct2, THEN conjunct2, THEN conjunct2, THEN conjunct2,
      THEN conjunct2, THEN conjunct1, THEN mp, OF e6]
  then obtain lg where lg: "New exampleLib ''event_log.json'' (LLMConfig exampleLogger)
      (EnrichCache exampleLogger) (Sessionizer exampleLogger) = Inr lg"
    and l1: "TimestampFormat (Formatter (EventLogger lg)) = ''2006-01-02T15:04:05Z07:00''"
    and l2: "FieldMap (Formatter (EventLogger lg)) = [(''time'', ''timestamp'')]"
    and l3: "Out (EventLogger lg) =
      \<lparr>Name = ''event_log.json'', Flag = [''O_APPEND'', ''O_CREATE'', ''O_WRONLY''],
       Perm = 420\<rparr>"
    and l4: "LLMConfig lg = LLMConfig exampleLogger"
    and l5: "EnrichCache lg = EnrichCache exampleLogger"
    and l6: "Sessionizer lg = Sessionizer exampleLogger"
    by (elim exE conjE)
  have "lg = exampleLogger"
  proof (cases lg)
    case (fields ec sz el cfg)
    show ?thesis
    proof (cases el)
      case el: (fields fm out)
      show ?thesis
      proof (cases fm)
        case fm: (fields tf fmap)
        from l1 l2 l3 l4 l5 l6 show ?thesis
          unfolding fields el fm
          by (simp add: exampleLogger_def RFC3339_def FieldKeyTime_def)
      qed
    qed
  qed
  with lg have o: "New exampleLib ''event_log.json'' (LLMConfig exampleLogger)
      (EnrichCache exampleLogger) (Sessionizer exampleLogger) = Inr exampleLogger"
    by simp
  from a b c d e f g h i k m n o show ?thesis by (intro conjI)
qed

end
